theory Spec2Isabelle
  imports Main "HOL-Library.Word" "HOL-Library.Char_ord" "HOL-Library.List_Lexorder"
    "HOL-Library.Product_Lexorder"
begin

unbundle bit_operations_syntax

section \<open>SHA-256 as \<^verbatim>\<open>hashlib.sha256(data).hexdigest()\<close> computes it\<close>

text \<open>
  \<^verbatim>\<open>compute_checksums\<close> (streamlit_app1.py, line 53) calls
  \<^verbatim>\<open>hashlib.sha256(data).hexdigest()\<close>. The hash is the function of FIPS 180-4 on
  32-bit words; the digest is rendered byte by byte as two lowercase hexadecimal digits.
\<close>

type_synonym byte = "8 word"
type_synonym u32 = "32 word"

definition rotr :: "nat \<Rightarrow> u32 \<Rightarrow> u32" where
  "rotr n x = drop_bit n x OR push_bit (32 - n) x"

definition Ch :: "u32 \<Rightarrow> u32 \<Rightarrow> u32 \<Rightarrow> u32" where
  "Ch x y z = (x AND y) XOR (NOT x AND z)"

definition Maj :: "u32 \<Rightarrow> u32 \<Rightarrow> u32 \<Rightarrow> u32" where
  "Maj x y z = (x AND y) XOR (x AND z) XOR (y AND z)"

definition Sigma0 :: "u32 \<Rightarrow> u32" where
  "Sigma0 x = rotr 2 x XOR rotr 13 x XOR rotr 22 x"

definition Sigma1 :: "u32 \<Rightarrow> u32" where
  "Sigma1 x = rotr 6 x XOR rotr 11 x XOR rotr 25 x"

definition sigma0 :: "u32 \<Rightarrow> u32" where
  "sigma0 x = rotr 7 x XOR rotr 18 x XOR drop_bit 3 x"

definition sigma1 :: "u32 \<Rightarrow> u32" where
  "sigma1 x = rotr 17 x XOR rotr 19 x XOR drop_bit 10 x"

definition K256 :: "u32 list" where
  "K256 = [
  0x428A2F98, 0x71374491, 0xB5C0FBCF, 0xE9B5DBA5, 0x3956C25B, 0x59F111F1, 0x923F82A4, 0xAB1C5ED5,
  0xD807AA98, 0x12835B01, 0x243185BE, 0x550C7DC3, 0x72BE5D74, 0x80DEB1FE, 0x9BDC06A7, 0xC19BF174,
  0xE49B69C1, 0xEFBE4786, 0x0FC19DC6, 0x240CA1CC, 0x2DE92C6F, 0x4A7484AA, 0x5CB0A9DC, 0x76F988DA,
  0x983E5152, 0xA831C66D, 0xB00327C8, 0xBF597FC7, 0xC6E00BF3, 0xD5A79147, 0x06CA6351, 0x14292967,
  0x27B70A85, 0x2E1B2138, 0x4D2C6DFC, 0x53380D13, 0x650A7354, 0x766A0ABB, 0x81C2C92E, 0x92722C85,
  0xA2BFE8A1, 0xA81A664B, 0xC24B8B70, 0xC76C51A3, 0xD192E819, 0xD6990624, 0xF40E3585, 0x106AA070,
  0x19A4C116, 0x1E376C08, 0x2748774C, 0x34B0BCB5, 0x391C0CB3, 0x4ED8AA4A, 0x5B9CCA4F, 0x682E6FF3,
  0x748F82EE, 0x78A5636F, 0x84C87814, 0x8CC70208, 0x90BEFFFA, 0xA4506CEB, 0xBEF9A3F7, 0xC67178F2]"

definition H256 :: "u32 list" where
  "H256 = [0x6A09E667, 0xBB67AE85, 0x3C6EF372, 0xA54FF53A,
           0x510E527F, 0x9B05688C, 0x1F83D9AB, 0x5BE0CD19]"

text \<open>
  Padding: the byte 0x80, zero bytes up to 56 modulo 64, then the length of the message
  in bits as eight big-endian bytes (a 64-bit counter).
\<close>

definition be_bytes :: "nat \<Rightarrow> nat \<Rightarrow> byte list" where
  "be_bytes k n = map (\<lambda>i. of_nat (n div 256 ^ i)) (rev [0..<k])"

definition pad :: "byte list \<Rightarrow> byte list" where
  "pad m = m @ [0x80] @ replicate ((119 - length m mod 64) mod 64) 0
             @ be_bytes 8 ((8 * length m) mod 2 ^ 64)"

fun be_words :: "byte list \<Rightarrow> u32 list" where
  "be_words (a # b # c # d # bs) =
     (push_bit 24 (ucast a) OR push_bit 16 (ucast b) OR push_bit 8 (ucast c) OR ucast d)
       # be_words bs"
| "be_words _ = []"

text \<open>The message schedule: sixteen words of the block, extended to sixty-four.\<close>

fun schedule :: "nat \<Rightarrow> u32 list \<Rightarrow> u32 list" where
  "schedule 0 w = w"
| "schedule (Suc n) w =
     (let t = length w in
      schedule n (w @ [sigma1 (w ! (t - 2)) + w ! (t - 7) + sigma0 (w ! (t - 15)) + w ! (t - 16)]))"

fun round256 :: "u32 list \<Rightarrow> u32 \<times> u32 \<Rightarrow> u32 list" where
  "round256 [a, b, c, d, e, f, g, h] (k, w) =
     (let t1 = h + Sigma1 e + Ch e f g + k + w;
          t2 = Sigma0 a + Maj a b c
      in [t1 + t2, a, b, c, d + t1, e, f, g])"
| "round256 s _ = s"

definition compress :: "u32 list \<Rightarrow> byte list \<Rightarrow> u32 list" where
  "compress h block =
     map2 (+) h (foldl round256 h (zip K256 (schedule 48 (be_words block))))"

function blocks :: "byte list \<Rightarrow> byte list list" where
  "blocks m = (if m = [] then [] else take 64 m # blocks (drop 64 m))"
  by pat_completeness auto
termination
  by (relation "measure length") auto

definition word_bytes :: "u32 \<Rightarrow> byte list" where
  "word_bytes w = [ucast (drop_bit 24 w), ucast (drop_bit 16 w), ucast (drop_bit 8 w), ucast w]"

definition sha256 :: "byte list \<Rightarrow> byte list" where
  "sha256 m = concat (map word_bytes (foldl compress H256 (blocks (pad m))))"

definition hexdigit :: "nat \<Rightarrow> char" where
  "hexdigit n = ''0123456789abcdef'' ! (n mod 16)"

definition hexdigest :: "byte list \<Rightarrow> string" where
  "hexdigest bs = concat (map (\<lambda>b. [hexdigit (unat b div 16), hexdigit (unat b mod 16)]) bs)"

definition checksum :: "byte list \<Rightarrow> string" where
  "checksum data = hexdigest (sha256 data)"

section \<open>The Generator: \<^verbatim>\<open>compute_checksums\<close>\<close>

text \<open>
  An uploaded file has a name and a byte content. \<^verbatim>\<open>uploaded_file.read()\<close> (line 51)
  either returns the bytes or raises; \<open>content = None\<close> is a file whose read raises.
  The function has no \<^verbatim>\<open>try\<close>, so an exception of \<^verbatim>\<open>read\<close> leaves the loop and the
  function.
\<close>

datatype exn = KeyError string | IOError string

record uploaded_file =
  name :: string
  content :: "byte list option"

definition read :: "uploaded_file \<Rightarrow> exn + byte list" where
  "read f = (case content f of None \<Rightarrow> Inl (IOError (name f)) | Some data \<Rightarrow> Inr data)"

text \<open>
  A cell of a pandas table at object dtype: a string, or NaN (no value). A table of
  checksums is what \<^verbatim>\<open>pd.DataFrame(records)\<close> builds: for an empty list of records a
  table with no columns at all, otherwise the columns \<^verbatim>\<open>filename\<close> and \<^verbatim>\<open>sha256\<close>
  with one row per record, in the order of the list.
\<close>

datatype cell = NaN | Str string

datatype frame = NoColumns | Checksums "(cell \<times> cell) list"

definition DataFrame :: "(string \<times> string) list \<Rightarrow> frame" where
  "DataFrame records =
     (if records = [] then NoColumns
      else Checksums (map (\<lambda>r. (Str (fst r), Str (snd r))) records))"

text \<open>The loop of lines 49 to 54, with the list \<^verbatim>\<open>records\<close> as accumulator.\<close>

fun append_records ::
  "uploaded_file list \<Rightarrow> (string \<times> string) list \<Rightarrow> exn + (string \<times> string) list" where
  "append_records [] records = Inr records"
| "append_records (f # files) records =
     (case read f of
        Inl e \<Rightarrow> Inl e
      | Inr data \<Rightarrow> append_records files (records @ [(name f, checksum data)]))"

definition compute_checksums :: "uploaded_file list \<Rightarrow> exn + frame" where
  "compute_checksums files =
     (case append_records files [] of
        Inl e \<Rightarrow> Inl e
      | Inr records \<Rightarrow> Inr (DataFrame records))"

definition readable :: "uploaded_file \<Rightarrow> bool" where
  "readable f = (content f \<noteq> None)"

definition record_of :: "uploaded_file \<Rightarrow> string \<times> string" where
  "record_of f = (name f, checksum (the (content f)))"

definition entries_named :: "string \<Rightarrow> frame \<Rightarrow> (cell \<times> cell) list" where
  "entries_named n df =
     (case df of NoColumns \<Rightarrow> [] | Checksums rs \<Rightarrow> filter (\<lambda>r. fst r = Str n) rs)"

section \<open>The Reconciler: \<^verbatim>\<open>compare_checksums\<close>\<close>

text \<open>
  \<^verbatim>\<open>pd.isna\<close> is true of NaN (and of \<^verbatim>\<open>None\<close>) and false of every string, the
  empty string included.
\<close>

fun isna :: "cell \<Rightarrow> bool" where
  "isna NaN = True"
| "isna (Str s) = False"

text \<open>
  \<^verbatim>\<open>pd.merge(baseline_df, new_df, on="filename", how="outer", suffixes=("_baseline", "_new"))\<close>
  (lines 72 to 74) on two tables of checksums. The result has the columns
  \<^verbatim>\<open>filename\<close>, \<^verbatim>\<open>sha256_baseline\<close> and \<^verbatim>\<open>sha256_new\<close>. For every key of the
  union of the two \<^verbatim>\<open>filename\<close> columns it holds the pairs of a left row and a right row
  with that key, each left row with every right row; a key with rows on one side only
  gives those rows with NaN on the other side. Equal keys match, NaN with NaN as well.
  The keys come sorted, strings by code point (which is the order of their UTF-8 bytes)
  and NaN last, as the pandas documentation states for \<^verbatim>\<open>how="outer"\<close>; the order of the
  rows differs between versions of pandas, and no property below depends on it.
\<close>

definition cell_key :: "cell \<Rightarrow> bool \<times> string" where
  "cell_key c = (case c of NaN \<Rightarrow> (True, []) | Str s \<Rightarrow> (False, s))"

definition merge_keys :: "(cell \<times> cell) list \<Rightarrow> (cell \<times> cell) list \<Rightarrow> cell list" where
  "merge_keys left right = sort_key cell_key (remdups (map fst left @ map fst right))"

definition values_of :: "cell \<Rightarrow> (cell \<times> cell) list \<Rightarrow> cell list" where
  "values_of k rs = map snd (filter (\<lambda>r. fst r = k) rs)"

definition join_key ::
  "cell \<Rightarrow> (cell \<times> cell) list \<Rightarrow> (cell \<times> cell) list \<Rightarrow> (cell \<times> cell \<times> cell) list" where
  "join_key k left right =
     (let ls = values_of k left; rs = values_of k right
      in if ls = [] then map (\<lambda>r. (k, NaN, r)) rs
         else if rs = [] then map (\<lambda>l. (k, l, NaN)) ls
         else concat (map (\<lambda>l. map (\<lambda>r. (k, l, r)) rs) ls))"

definition merge_outer ::
  "(cell \<times> cell) list \<Rightarrow> (cell \<times> cell) list \<Rightarrow> (cell \<times> cell \<times> cell) list" where
  "merge_outer left right = concat (map (\<lambda>k. join_key k left right) (merge_keys left right))"

text \<open>The classification of one merged row (lines 77 to 86), in the order of the source.\<close>

definition row_status :: "cell \<Rightarrow> cell \<Rightarrow> string" where
  "row_status baseline_hash new_hash =
     (if isna baseline_hash then ''new''
      else if isna new_hash then ''missing''
      else if baseline_hash = new_hash then ''unchanged''
      else ''modified'')"

record comparison =
  filename :: cell
  sha256_baseline :: cell
  sha256_new :: cell
  status :: string

definition classify :: "cell \<times> cell \<times> cell \<Rightarrow> comparison" where
  "classify row =
     (case row of (k, baseline_hash, new_hash) \<Rightarrow>
        \<lparr>filename = k, sha256_baseline = baseline_hash, sha256_new = new_hash,
         status = row_status baseline_hash new_hash\<rparr>)"

text \<open>
  \<^verbatim>\<open>compare_checksums\<close> is called at one place (line 152), with the baseline cut down
  to its \<^verbatim>\<open>filename\<close> and \<^verbatim>\<open>sha256\<close> columns (line 148) and the table that
  \<^verbatim>\<open>compute_checksums\<close> returned. A table without the column \<^verbatim>\<open>filename\<close> makes
  \<^verbatim>\<open>pd.merge\<close> raise \<^verbatim>\<open>KeyError\<close>.
\<close>

fun compare_checksums :: "frame \<Rightarrow> frame \<Rightarrow> exn + comparison list" where
  "compare_checksums (Checksums baseline_df) (Checksums new_df) =
     Inr (map classify (merge_outer baseline_df new_df))"
| "compare_checksums _ _ = Inl (KeyError ''filename'')"

text \<open>
  A fingerprint set is a table of checksums in which every name occurs once and every
  name and digest is a string. The digest recorded for a name is \<open>map_of rs n\<close>.
\<close>

definition fingerprint_set :: "(cell \<times> cell) list \<Rightarrow> bool" where
  "fingerprint_set rs =
     (distinct (map fst rs) \<and> list_all (\<lambda>r. \<not> isna (fst r) \<and> \<not> isna (snd r)) rs)"

text \<open>The digest a table holds for a name, NaN when the name is not in it.\<close>

definition digest_at :: "(cell \<times> cell) list \<Rightarrow> cell \<Rightarrow> cell" where
  "digest_at rs n = (case map_of rs n of None \<Rightarrow> NaN | Some d \<Rightarrow> d)"

definition names_of :: "(cell \<times> cell) list \<Rightarrow> cell set" where
  "names_of rs = fst ` set rs"

definition records_for :: "cell \<Rightarrow> comparison list \<Rightarrow> comparison list" where
  "records_for n out = filter (\<lambda>r. filename r = n) out"

section \<open>The comparison mode of \<^verbatim>\<open>main\<close>\<close>

text \<open>
  The baseline as \<^verbatim>\<open>pd.read_csv\<close> returns it: the column labels of the header and the
  rows of cells. \<^verbatim>\<open>read_csv\<close> makes the labels distinct and gives every row one cell per
  column (a short line is filled with NaN).
\<close>

record csv_frame =
  columns :: "string list"
  rows :: "cell list list"

fun index_of :: "string \<Rightarrow> string list \<Rightarrow> nat" where
  "index_of c [] = 0"
| "index_of c (x # xs) = (if x = c then 0 else Suc (index_of c xs))"

definition cell_at :: "string list \<Rightarrow> string \<Rightarrow> cell list \<Rightarrow> cell" where
  "cell_at cols c row = (let i = index_of c cols in if i < length row then row ! i else NaN)"

text \<open>\<^verbatim>\<open>baseline_df[["filename", "sha256"]]\<close> (line 148).\<close>

definition select_checksums :: "csv_frame \<Rightarrow> frame" where
  "select_checksums df =
     Checksums (map (\<lambda>row. (cell_at (columns df) ''filename'' row,
                              cell_at (columns df) ''sha256'' row)) (rows df))"

text \<open>
  What the comparison mode (lines 125 to 166) ends with:
  \<^item> \<open>Prompt\<close>: \<^verbatim>\<open>st.info\<close> asks for a baseline and the current files (line 164);
  \<^item> \<open>Read_failed e\<close>: \<^verbatim>\<open>st.error\<close> reports that \<^verbatim>\<open>pd.read_csv\<close> raised \<open>e\<close> (line 139);
  \<^item> \<open>Malformed_baseline\<close>: \<^verbatim>\<open>st.error\<close> reports that the baseline must contain the
    columns \<^verbatim>\<open>filename\<close> and \<^verbatim>\<open>sha256\<close> (line 143);
  \<^item> \<open>Results t\<close>: the comparison table is shown and offered for download;
  \<^item> \<open>Uncaught e\<close>: an exception that nothing catches.

  The baseline upload is \<open>None\<close> when no file was chosen; otherwise it carries what
  \<^verbatim>\<open>pd.read_csv\<close> does with it: the message of the exception it raises, or the table.
\<close>

datatype outcome =
  Prompt
  | Read_failed string
  | Malformed_baseline
  | Results "comparison list"
  | Uncaught exn

definition main_compare :: "(string + csv_frame) option \<Rightarrow> uploaded_file list \<Rightarrow> outcome" where
  "main_compare baseline_file new_files =
     (case baseline_file of
        None \<Rightarrow> Prompt
      | Some parsed \<Rightarrow>
          if new_files = [] then Prompt
          else
            (case parsed of
               Inl e \<Rightarrow> Read_failed e
             | Inr baseline_df \<Rightarrow>
                 if \<not> (''filename'' \<in> set (columns baseline_df)
                        \<and> ''sha256'' \<in> set (columns baseline_df)) then Malformed_baseline
                 else
                   (case compute_checksums new_files of
                      Inl e \<Rightarrow> Uncaught e
                    | Inr new_df \<Rightarrow>
                        (case compare_checksums (select_checksums baseline_df) new_df of
                           Inl e \<Rightarrow> Uncaught e
                         | Inr comparison_df \<Rightarrow> Results comparison_df))))"

section \<open>The baseline as a CSV file\<close>

text \<open>
  \<^verbatim>\<open>df.to_csv(index=False)\<close> (line 115) on a table with the columns \<^verbatim>\<open>filename\<close> and
  \<^verbatim>\<open>sha256\<close>: a header line and one line per row, the fields separated by commas, every
  line ended by a line feed. NaN is written as the empty field; a string that holds a
  comma, a double quote or a line feed is written between double quotes with its double
  quotes doubled (\<^verbatim>\<open>csv.QUOTE_MINIMAL\<close>), every other string as it is.
\<close>

definition csv_field :: "cell \<Rightarrow> string" where
  "csv_field c =
     (case c of
        NaN \<Rightarrow> []
      | Str s \<Rightarrow>
          if list_ex (\<lambda>x. x \<in> set [CHR '','', CHR 0x22, CHR 0x0A]) s
          then CHR 0x22 # concat (map (\<lambda>x. if x = CHR 0x22 then [x, x] else [x]) s) @ [CHR 0x22]
          else s)"

definition csv_line :: "string list \<Rightarrow> string" where
  "csv_line cells = concat (map (\<lambda>f. f @ [CHR '','']) (butlast cells)) @ last cells @ [CHR 0x0A]"

definition to_csv :: "(cell \<times> cell) list \<Rightarrow> string" where
  "to_csv rs =
     csv_line [''filename'', ''sha256'']
       @ concat (map (\<lambda>r. csv_line [csv_field (fst r), csv_field (snd r)]) rs)"

text \<open>
  \<^verbatim>\<open>pd.read_csv(baseline_file)\<close> (line 137) is called with its defaults, so the text of a
  field that is one of the default \<^verbatim>\<open>na_values\<close> is read as NaN. In a column that holds
  text, every other field is read as the string it spells.
\<close>

definition na_values :: "string list" where
  "na_values = ['''', ''#N/A'', ''#N/A N/A'', ''#NA'', ''-1.#IND'', ''-1.#QNAN'', ''-NaN'',
     ''-nan'', ''1.#IND'', ''1.#QNAN'', ''<NA>'', ''N/A'', ''NA'', ''NULL'', ''NaN'', ''None'',
     ''n/a'', ''nan'', ''null'']"

definition read_csv_cell :: "string \<Rightarrow> cell" where
  "read_csv_cell s = (if s \<in> set na_values then NaN else Str s)"

section \<open>Properties of the Generator\<close>

lemma append_records_readable:
  "list_all readable files \<Longrightarrow>
     append_records files records = Inr (records @ map record_of files)"
proof (induction files arbitrary: records)
  case Nil
  then show ?case by simp
next
  case (Cons f files)
  from Cons.prems have rd: "read f = Inr (the (content f))"
    by (auto simp: readable_def read_def)
  from Cons.prems have "list_all readable files" by simp
  from Cons.IH [OF this] rd show ?case
    by (simp add: record_of_def)
qed

lemma append_records_unreadable:
  "list_all readable pre \<Longrightarrow> \<not> readable f \<Longrightarrow>
     append_records (pre @ f # post) records = Inl (IOError (name f))"
proof (induction pre arbitrary: records)
  case Nil
  then show ?case by (simp add: readable_def read_def)
next
  case (Cons g pre)
  from Cons.prems have rd: "read g = Inr (the (content g))"
    by (auto simp: readable_def read_def)
  from Cons.prems have "list_all readable pre" by simp
  from Cons.IH [OF this Cons.prems(2)] rd show ?case by simp
qed

text \<open>
  Claim C6, as the code has it. The spec asks that a failing read be reported for its
  entry alone while the other entries are still hashed. \<^verbatim>\<open>compute_checksums\<close> has no
  handler around \<^verbatim>\<open>uploaded_file.read()\<close>: when the read of an entry raises, and the
  entries before it were read, the whole call ends with that entry's exception and no
  table is returned, whatever follows the entry.
\<close>

theorem compute_checksums_read_failure_aborts:
  assumes "list_all readable pre" and "\<not> readable f"
  shows "compute_checksums (pre @ f # post) = Inl (IOError (name f))"
  using append_records_unreadable [OF assms, of post "[]"]
  by (simp add: compute_checksums_def)

theorem compute_checksums_read_failure_aborts_witness:
  "compute_checksums
     ([\<lparr>name = ''a.txt'', content = Some [0x61]\<rparr>]
        @ \<lparr>name = ''b.txt'', content = None\<rparr>
        # [\<lparr>name = ''c.txt'', content = Some [0x63]\<rparr>])
   = Inl (IOError ''b.txt'')"
  using compute_checksums_read_failure_aborts
    [of "[\<lparr>name = ''a.txt'', content = Some [0x61]\<rparr>]"
        "\<lparr>name = ''b.txt'', content = None\<rparr>"
        "[\<lparr>name = ''c.txt'', content = Some [0x63]\<rparr>]"]
  by (simp add: readable_def)

text \<open>
  Claim C6 as stated fails: with three uploads of which the second cannot be read, the
  call returns no table at all, so the first and the third entry are lost with it.
\<close>

theorem compute_checksums_isolation_counterexample:
  "compute_checksums
     [\<lparr>name = ''a.txt'', content = Some [0x61]\<rparr>,
      \<lparr>name = ''b.txt'', content = None\<rparr>,
      \<lparr>name = ''c.txt'', content = Some [0x63]\<rparr>]
   = Inl (IOError ''b.txt'')"
  by (simp add: compute_checksums_def read_def)

lemma entries_named_DataFrame:
  "entries_named n (DataFrame records) =
     map (\<lambda>r. (Str n, Str (snd r))) (filter (\<lambda>r. fst r = n) records)"
proof -
  have "filter (\<lambda>r. fst r = Str n) (map (\<lambda>r. (Str (fst r), Str (snd r))) records)
          = map (\<lambda>r. (Str n, Str (snd r))) (filter (\<lambda>r. fst r = n) records)"
    by (induction records) auto
  then show ?thesis
    by (simp add: entries_named_def DataFrame_def)
qed

text \<open>
  Claim C3, as the code has it. The records are appended to a list and the list becomes
  the table, so nothing is overwritten: when every read succeeds the table has one row
  per input pair, in input order, and the rows for a name are the digests of all the
  pairs with that name, in input order.
\<close>

theorem compute_checksums_keeps_every_pair:
  assumes "list_all readable files"
  shows "compute_checksums files = Inr (DataFrame (map record_of files))
       \<and> map_sum id (entries_named n) (compute_checksums files)
           = Inr (map (\<lambda>f. (Str n, Str (checksum (the (content f)))))
                    (filter (\<lambda>f. name f = n) files))"
proof -
  have c: "compute_checksums files = Inr (DataFrame (map record_of files))"
    using append_records_readable [OF assms, of "[]"] by (simp add: compute_checksums_def)
  have "entries_named n (DataFrame (map record_of files))
          = map (\<lambda>f. (Str n, Str (checksum (the (content f))))) (filter (\<lambda>f. name f = n) files)"
    unfolding entries_named_DataFrame
    by (induction files) (auto simp: record_of_def)
  with c show ?thesis by simp
qed

theorem compute_checksums_keeps_every_pair_witness:
  "map_sum id (entries_named ''a.txt'')
     (compute_checksums
        [\<lparr>name = ''a.txt'', content = Some [0x61]\<rparr>,
         \<lparr>name = ''b.txt'', content = Some []\<rparr>,
         \<lparr>name = ''a.txt'', content = Some [0x62]\<rparr>])
   = Inr [(Str ''a.txt'', Str (checksum [0x61])), (Str ''a.txt'', Str (checksum [0x62]))]"
  using compute_checksums_keeps_every_pair
    [of "[\<lparr>name = ''a.txt'', content = Some [0x61]\<rparr>,
         \<lparr>name = ''b.txt'', content = Some []\<rparr>,
         \<lparr>name = ''a.txt'', content = Some [0x62]\<rparr>]" "''a.txt''"]
  by (simp add: readable_def entries_named_DataFrame record_of_def)

text \<open>
  Claim C3 as stated fails: two uploads with the same name give a table with two
  entries for that name, not one.
\<close>

theorem compute_checksums_last_write_wins_counterexample:
  "map_sum id (entries_named ''a.txt'')
     (compute_checksums
        [\<lparr>name = ''a.txt'', content = Some [0x61]\<rparr>,
         \<lparr>name = ''a.txt'', content = Some [0x62]\<rparr>])
   = Inr [(Str ''a.txt'', Str (checksum [0x61])), (Str ''a.txt'', Str (checksum [0x62]))]"
  by (simp add: compute_checksums_def read_def DataFrame_def entries_named_def)

section \<open>Properties of the Reconciler\<close>


lemma cell_key_inj: "cell_key a = cell_key b \<Longrightarrow> a = b"
  by (cases a; cases b) (simp_all add: cell_key_def)

lemma set_merge_keys: "set (merge_keys left right) = names_of left \<union> names_of right"
  by (simp add: merge_keys_def names_of_def)

lemma distinct_merge_keys: "distinct (merge_keys left right)"
  by (simp add: merge_keys_def)

lemma values_of_distinct:
  "distinct (map fst rs) \<Longrightarrow>
     values_of k rs = (case map_of rs k of None \<Rightarrow> [] | Some d \<Rightarrow> [d])"
proof (induction rs)
  case Nil
  then show ?case by (simp add: values_of_def)
next
  case (Cons r rs)
  obtain a b where r: "r = (a, b)" by (cases r)
  from Cons.prems r have notin: "a \<notin> fst ` set rs" and d: "distinct (map fst rs)"
    by auto
  show ?case
  proof (cases "a = k")
    case True
    with notin have "map_of rs k = None"
      by (simp add: map_of_eq_None_iff)
    with Cons.IH [OF d] True r show ?thesis
      by (simp add: values_of_def)
  next
    case False
    with Cons.IH [OF d] r show ?thesis
      by (simp add: values_of_def)
  qed
qed

lemma join_key_distinct:
  assumes "distinct (map fst left)" and "distinct (map fst right)"
    and "k \<in> names_of left \<union> names_of right"
  shows "join_key k left right = [(k, digest_at left k, digest_at right k)]"
proof -
  from assms(3) have "map_of left k \<noteq> None \<or> map_of right k \<noteq> None"
    by (auto simp: names_of_def map_of_eq_None_iff)
  then show ?thesis
    by (auto simp: join_key_def digest_at_def values_of_distinct [OF assms(1)]
        values_of_distinct [OF assms(2)] split: option.splits)
qed

lemma concat_map_single:
  "(\<And>k. k \<in> set ks \<Longrightarrow> f k = [g k]) \<Longrightarrow> concat (map f ks) = map g ks"
  by (induction ks) simp_all

lemma merge_outer_distinct:
  assumes "distinct (map fst left)" and "distinct (map fst right)"
  shows "merge_outer left right =
           map (\<lambda>k. (k, digest_at left k, digest_at right k)) (merge_keys left right)"
  unfolding merge_outer_def
  by (rule concat_map_single) (simp add: join_key_distinct [OF assms] set_merge_keys)

lemma compare_checksums_distinct:
  assumes "distinct (map fst left)" and "distinct (map fst right)"
  shows "compare_checksums (Checksums left) (Checksums right) =
           Inr (map (\<lambda>k. classify (k, digest_at left k, digest_at right k))
                  (merge_keys left right))"
  by (simp add: merge_outer_distinct [OF assms])

lemma filename_classify: "filename (classify (k, b, n)) = k"
  by (simp add: classify_def)

lemma records_for_distinct:
  "distinct ks \<Longrightarrow> n \<in> set ks \<Longrightarrow>
     records_for n (map (\<lambda>k. classify (k, f k, g k)) ks) = [classify (n, f n, g n)]"
proof (induction ks)
  case Nil
  then show ?case by simp
next
  case (Cons k ks)
  show ?case
  proof (cases "k = n")
    case True
    with Cons.prems have "n \<notin> set ks" by simp
    then have "records_for n (map (\<lambda>k. classify (k, f k, g k)) ks) = []"
      by (induction ks) (auto simp: records_for_def filename_classify)
    with True show ?thesis
      by (simp add: records_for_def filename_classify)
  next
    case False
    with Cons show ?thesis
      by (simp add: records_for_def filename_classify)
  qed
qed

text \<open>
  Claim C2. For two tables in which every name occurs once, \<^verbatim>\<open>compare_checksums\<close>
  returns a table whose \<^verbatim>\<open>filename\<close> column lists the union of the names of the two
  inputs, each name once: its length is the cardinality of the union.
\<close>

theorem compare_checksums_one_record_per_name:
  assumes "distinct (map fst A)" and "distinct (map fst B)"
  shows "\<exists>out. compare_checksums (Checksums A) (Checksums B) = Inr out
           \<and> length out = card (names_of A \<union> names_of B)
           \<and> distinct (map filename out)
           \<and> set (map filename out) = names_of A \<union> names_of B"
proof -
  let ?out = "map (\<lambda>k. classify (k, digest_at A k, digest_at B k)) (merge_keys A B)"
  have names: "map filename ?out = merge_keys A B"
    by (simp add: comp_def filename_classify)
  have "length ?out = card (set (merge_keys A B))"
    using distinct_card [OF distinct_merge_keys, of A B] by simp
  then have "length ?out = card (names_of A \<union> names_of B)"
    by (simp only: set_merge_keys)
  moreover have "distinct (map filename ?out)"
    unfolding names by (rule distinct_merge_keys)
  moreover have "set (map filename ?out) = names_of A \<union> names_of B"
    unfolding names by (rule set_merge_keys)
  ultimately show ?thesis
    using compare_checksums_distinct [OF assms] by blast
qed


theorem compare_checksums_one_record_per_name_witness:
  "\<exists>out. compare_checksums
            (Checksums [(Str ''b.txt'', Str ''d2''), (Str ''a.txt'', Str ''d1'')])
            (Checksums [(Str ''c.txt'', Str ''d4''), (Str ''a.txt'', Str ''d1''),
                        (Str ''b.txt'', Str ''d3'')]) = Inr out
         \<and> length out = 3
         \<and> distinct (map filename out)
         \<and> set (map filename out) = {Str ''a.txt'', Str ''b.txt'', Str ''c.txt''}"
  using compare_checksums_one_record_per_name
    [of "[(Str ''b.txt'', Str ''d2''), (Str ''a.txt'', Str ''d1'')]"
        "[(Str ''c.txt'', Str ''d4''), (Str ''a.txt'', Str ''d1''), (Str ''b.txt'', Str ''d3'')]"]
  by (simp add: names_of_def insert_commute)

lemma fingerprint_set_digest:
  "fingerprint_set rs \<Longrightarrow> isna (digest_at rs n) = (map_of rs n = None)"
proof (cases "map_of rs n")
  case None
  then show ?thesis by (simp add: digest_at_def)
next
  case (Some d)
  assume "fingerprint_set rs"
  moreover from Some have "(n, d) \<in> set rs" by (rule map_of_SomeD)
  ultimately have "\<not> isna d"
    by (auto simp: fingerprint_set_def list_all_iff)
  with Some show ?thesis by (simp add: digest_at_def)
qed

lemma status_classify: "status (classify (k, b, n)) = row_status b n"
  by (simp add: classify_def)

lemma baseline_classify: "sha256_baseline (classify (k, b, n)) = b"
  by (simp add: classify_def)

lemma new_classify: "sha256_new (classify (k, b, n)) = n"
  by (simp add: classify_def)

text \<open>
  Claim C1. For two fingerprint sets and a name of either, the comparison has exactly
  one record for the name. It carries the two digests (NaN for an absent one), and its
  status is \<^verbatim>\<open>unchanged\<close> iff both digests are present and equal, \<^verbatim>\<open>modified\<close> iff
  both are present and differ, \<^verbatim>\<open>new\<close> iff the baseline has no digest for the name, and
  \<^verbatim>\<open>missing\<close> iff the current set has none.
\<close>

theorem compare_checksums_status:
  assumes "fingerprint_set B" and "fingerprint_set N" and "n \<in> names_of B \<union> names_of N"
  shows "\<exists>out r. compare_checksums (Checksums B) (Checksums N) = Inr out
           \<and> records_for n out = [r]
           \<and> sha256_baseline r = digest_at B n
           \<and> sha256_new r = digest_at N n
           \<and> (status r = ''unchanged'' \<longleftrightarrow> (\<exists>d. map_of B n = Some d \<and> map_of N n = Some d))
           \<and> (status r = ''modified'' \<longleftrightarrow>
                (\<exists>d e. map_of B n = Some d \<and> map_of N n = Some e \<and> d \<noteq> e))
           \<and> (status r = ''new'' \<longleftrightarrow> map_of B n = None)
           \<and> (status r = ''missing'' \<longleftrightarrow> map_of N n = None)"
proof -
  let ?r = "classify (n, digest_at B n, digest_at N n)"
  from assms(1,2) have dB: "distinct (map fst B)" and dN: "distinct (map fst N)"
    by (simp_all add: fingerprint_set_def)
  have out: "compare_checksums (Checksums B) (Checksums N) =
               Inr (map (\<lambda>k. classify (k, digest_at B k, digest_at N k)) (merge_keys B N))"
    by (rule compare_checksums_distinct [OF dB dN])
  from assms(3) have "n \<in> set (merge_keys B N)"
    by (simp only: set_merge_keys)
  then have one: "records_for n (map (\<lambda>k. classify (k, digest_at B k, digest_at N k))
                     (merge_keys B N)) = [?r]"
    by (rule records_for_distinct [OF distinct_merge_keys])
  have naB: "isna (digest_at B n) = (map_of B n = None)"
    by (rule fingerprint_set_digest [OF assms(1)])
  have naN: "isna (digest_at N n) = (map_of N n = None)"
    by (rule fingerprint_set_digest [OF assms(2)])
  from assms(3) have some: "map_of B n \<noteq> None \<or> map_of N n \<noteq> None"
    by (auto simp: names_of_def map_of_eq_None_iff)
  have s1: "status ?r = ''unchanged'' \<longleftrightarrow> (\<exists>d. map_of B n = Some d \<and> map_of N n = Some d)"
    using naB naN by (auto simp: status_classify row_status_def digest_at_def)
  have s2: "status ?r = ''modified'' \<longleftrightarrow>
              (\<exists>d e. map_of B n = Some d \<and> map_of N n = Some e \<and> d \<noteq> e)"
    using naB naN by (auto simp: status_classify row_status_def digest_at_def)
  have s3: "status ?r = ''new'' \<longleftrightarrow> map_of B n = None"
    using naB naN by (auto simp: status_classify row_status_def)
  have s4: "status ?r = ''missing'' \<longleftrightarrow> map_of N n = None"
    using naB naN some by (auto simp: status_classify row_status_def)
  from out one s1 s2 s3 s4 show ?thesis
    by (simp add: baseline_classify new_classify)
qed


theorem compare_checksums_status_witness:
  "\<exists>out r. compare_checksums
            (Checksums [(Str ''a.txt'', Str ''d1''), (Str ''b.txt'', Str ''d2'')])
            (Checksums [(Str ''a.txt'', Str ''d1''), (Str ''b.txt'', Str ''d3''),
                        (Str ''c.txt'', Str ''d4'')]) = Inr out
         \<and> records_for (Str ''b.txt'') out = [r]
         \<and> sha256_baseline r = Str ''d2''
         \<and> sha256_new r = Str ''d3''
         \<and> status r = ''modified''"
  using compare_checksums_status
    [of "[(Str ''a.txt'', Str ''d1''), (Str ''b.txt'', Str ''d2'')]"
        "[(Str ''a.txt'', Str ''d1''), (Str ''b.txt'', Str ''d3''), (Str ''c.txt'', Str ''d4'')]"
        "Str ''b.txt''"]
  by (auto simp: fingerprint_set_def names_of_def digest_at_def)

text \<open>
  Claim C8. Comparing a fingerprint set with itself gives one record per name of the
  set, every record with status \<^verbatim>\<open>unchanged\<close>, none with \<^verbatim>\<open>new\<close> or \<^verbatim>\<open>missing\<close>.
\<close>

theorem compare_checksums_self:
  assumes "fingerprint_set A"
  shows "\<exists>out. compare_checksums (Checksums A) (Checksums A) = Inr out
           \<and> set (map filename out) = names_of A
           \<and> length out = length A
           \<and> list_all (\<lambda>r. status r = ''unchanged'') out
           \<and> \<not> list_ex (\<lambda>r. status r = ''new'' \<or> status r = ''missing'') out"
proof -
  let ?out = "map (\<lambda>k. classify (k, digest_at A k, digest_at A k)) (merge_keys A A)"
  from assms have dA: "distinct (map fst A)"
    by (simp add: fingerprint_set_def)
  have out: "compare_checksums (Checksums A) (Checksums A) = Inr ?out"
    by (rule compare_checksums_distinct [OF dA dA])
  have names: "map filename ?out = merge_keys A A"
    by (simp add: comp_def filename_classify)
  have n: "set (map filename ?out) = names_of A"
    unfolding names by (simp add: set_merge_keys)
  have "length ?out = card (set (merge_keys A A))"
    using distinct_card [OF distinct_merge_keys, of A A] by simp
  also have "\<dots> = card (set (map fst A))"
    by (simp add: set_merge_keys names_of_def)
  also have "\<dots> = length A"
    using distinct_card [OF dA] by simp
  finally have l: "length ?out = length A" .
  have st: "status (classify (k, digest_at A k, digest_at A k)) = ''unchanged''"
    if "k \<in> set (merge_keys A A)" for k
  proof -
    from that have "map_of A k \<noteq> None"
      by (simp add: set_merge_keys names_of_def map_of_eq_None_iff)
    then have "\<not> isna (digest_at A k)"
      by (simp add: fingerprint_set_digest [OF assms])
    then show ?thesis
      by (simp add: status_classify row_status_def)
  qed
  then have u: "list_all (\<lambda>r. status r = ''unchanged'') ?out"
    by (simp add: list_all_iff)
  then have "\<not> list_ex (\<lambda>r. status r = ''new'' \<or> status r = ''missing'') ?out"
    by (auto simp: list_all_iff list_ex_iff)
  with out n l u show ?thesis by blast
qed

theorem compare_checksums_self_witness:
  "\<exists>out. compare_checksums
            (Checksums [(Str ''a.txt'', Str ''d1''), (Str ''b.txt'', Str ''d2'')])
            (Checksums [(Str ''a.txt'', Str ''d1''), (Str ''b.txt'', Str ''d2'')]) = Inr out
         \<and> set (map filename out) = {Str ''a.txt'', Str ''b.txt''}
         \<and> length out = 2
         \<and> list_all (\<lambda>r. status r = ''unchanged'') out
         \<and> \<not> list_ex (\<lambda>r. status r = ''new'' \<or> status r = ''missing'') out"
  using compare_checksums_self [of "[(Str ''a.txt'', Str ''d1''), (Str ''b.txt'', Str ''d2'')]"]
  by (simp add: fingerprint_set_def names_of_def insert_commute)

lemma sort_key_cell_key_unique:
  assumes "distinct xs" and "distinct ys" and "set xs = set ys"
  shows "sort_key cell_key xs = sort_key cell_key ys"
proof -
  have inj: "inj cell_key"
    by (rule injI) (rule cell_key_inj)
  have "map cell_key (sort_key cell_key xs) = map cell_key (sort_key cell_key ys)"
  proof (rule sorted_distinct_set_unique)
    show "sorted (map cell_key (sort_key cell_key xs))" by (rule sorted_sort_key)
    show "sorted (map cell_key (sort_key cell_key ys))" by (rule sorted_sort_key)
    show "distinct (map cell_key (sort_key cell_key xs))"
      using assms(1) inj by (simp add: distinct_map inj_on_def inj_def)
    show "distinct (map cell_key (sort_key cell_key ys))"
      using assms(2) inj by (simp add: distinct_map inj_on_def inj_def)
    show "set (map cell_key (sort_key cell_key xs)) = set (map cell_key (sort_key cell_key ys))"
      using assms(3) by simp
  qed
  with inj show ?thesis
    by (simp add: inj_map_eq_map)
qed

lemma merge_keys_cong:
  "names_of left \<union> names_of right = names_of left' \<union> names_of right' \<Longrightarrow>
     merge_keys left right = merge_keys left' right'"
  unfolding merge_keys_def
  by (rule sort_key_cell_key_unique) (simp_all add: names_of_def)

lemma values_of_filter_other:
  "k \<noteq> n \<Longrightarrow> values_of k (filter (\<lambda>r. fst r \<noteq> n) rs) = values_of k rs"
  unfolding values_of_def
  by (rule arg_cong [where f = "map snd"]) (induction rs, auto)

lemma values_of_filter_same: "values_of n (filter (\<lambda>r. fst r \<noteq> n) rs) = []"
  unfolding values_of_def by (induction rs) auto

lemma values_of_empty: "values_of k rs = [] \<longleftrightarrow> k \<notin> names_of rs"
  unfolding values_of_def names_of_def
  by (induction rs) auto

lemma join_key_null_row:
  assumes "distinct (map fst B)" and "(n, NaN) \<in> set B" and "n \<in> names_of N"
  shows "join_key k (filter (\<lambda>r. fst r \<noteq> n) B) N = join_key k B N"
proof (cases "k = n")
  case True
  from assms(1,2) have "map_of B n = Some NaN" by (rule map_of_is_SomeI)
  then have "values_of n B = [NaN]"
    by (simp add: values_of_distinct [OF assms(1)])
  moreover from assms(3) have "values_of n N \<noteq> []"
    by (simp add: values_of_empty)
  ultimately show ?thesis
    using True by (simp add: join_key_def values_of_filter_same)
next
  case False
  then show ?thesis
    by (simp add: join_key_def values_of_filter_other)
qed

lemma merge_outer_null_row:
  assumes "distinct (map fst B)" and "(n, NaN) \<in> set B" and "n \<in> names_of N"
  shows "merge_outer (filter (\<lambda>r. fst r \<noteq> n) B) N = merge_outer B N"
proof -
  from assms(3) have "names_of (filter (\<lambda>r. fst r \<noteq> n) B) \<union> names_of N
                        = names_of B \<union> names_of N"
    by (auto simp: names_of_def)
  then have "merge_keys (filter (\<lambda>r. fst r \<noteq> n) B) N = merge_keys B N"
    by (rule merge_keys_cong)
  then show ?thesis
    by (simp add: merge_outer_def join_key_null_row [OF assms])
qed

lemma join_key_has_null:
  assumes "(n, NaN) \<in> set B"
  shows "\<exists>c. (n, NaN, c) \<in> set (join_key n B N)"
proof -
  from assms have "NaN \<in> set (values_of n B)"
    by (force simp: values_of_def)
  then show ?thesis
    by (cases "values_of n N") (auto simp: join_key_def Let_def)
qed

lemma merge_keys_filter:
  assumes "n \<notin> names_of N"
  shows "merge_keys (filter (\<lambda>r. fst r \<noteq> n) B) N = filter (\<lambda>k. k \<noteq> n) (merge_keys B N)"
proof -
  have l: "filter (\<lambda>k. k \<noteq> n) (map fst B) = map fst (filter (\<lambda>r. fst r \<noteq> n) B)"
    by (induction B) auto
  from assms have r: "filter (\<lambda>k. k \<noteq> n) (map fst N) = map fst N"
    by (auto simp: names_of_def filter_id_conv)
  show ?thesis
    by (simp add: merge_keys_def filter_sort remdups_filter [symmetric] l r)
qed

lemma join_key_filename: "r \<in> set (join_key k left right) \<Longrightarrow> fst r = k"
  by (auto simp: join_key_def Let_def split: if_splits)

lemma filter_classify_joins:
  "filter (\<lambda>r. filename r \<noteq> n) (map classify (concat (map (\<lambda>k. join_key k left right) ks)))
     = map classify (concat (map (\<lambda>k. join_key k left right) (filter (\<lambda>k. k \<noteq> n) ks)))"
proof (induction ks)
  case Nil
  then show ?case by simp
next
  case (Cons k ks)
  have "filter (\<lambda>r. filename r \<noteq> n) (map classify (join_key k left right))
          = (if k \<noteq> n then map classify (join_key k left right) else [])"
  proof -
    have "filename (classify r) = k" if "r \<in> set (join_key k left right)" for r
      using join_key_filename [OF that] by (cases r) (simp add: classify_def)
    then show ?thesis
      by (auto simp: filter_empty_conv filter_id_conv)
  qed
  with Cons.IH show ?case by simp
qed

lemma merge_outer_drop_null_row:
  assumes "n \<notin> names_of N"
  shows "map classify (merge_outer (filter (\<lambda>r. fst r \<noteq> n) B) N)
           = filter (\<lambda>r. filename r \<noteq> n) (map classify (merge_outer B N))"
proof -
  have "join_key k (filter (\<lambda>r. fst r \<noteq> n) B) N = join_key k B N"
    if "k \<in> set (filter (\<lambda>k. k \<noteq> n) (merge_keys B N))" for k
    using that by (simp add: join_key_def values_of_filter_other)
  then have "map (\<lambda>k. join_key k (filter (\<lambda>r. fst r \<noteq> n) B) N)
                 (filter (\<lambda>k. k \<noteq> n) (merge_keys B N))
               = map (\<lambda>k. join_key k B N) (filter (\<lambda>k. k \<noteq> n) (merge_keys B N))"
    by (rule map_cong [OF refl])
  then show ?thesis
    by (simp only: merge_outer_def merge_keys_filter [OF assms] filter_classify_joins)
qed

lemma join_key_only_baseline:
  assumes "(n, NaN) \<in> set B" and "n \<notin> names_of N"
  shows "(n, NaN, NaN) \<in> set (join_key n B N)"
proof -
  from assms(1) have "NaN \<in> set (values_of n B)"
    by (force simp: values_of_def)
  moreover from assms(2) have "values_of n N = []"
    by (simp add: values_of_empty)
  ultimately show ?thesis
    by (auto simp: join_key_def Let_def)
qed

text \<open>
  Claim C10, as the code has it. A baseline row for the name \<open>n\<close> whose digest cell
  is NaN gives a record for \<open>n\<close> with status \<^verbatim>\<open>new\<close>; the status is \<^verbatim>\<open>new\<close>
  exactly for the records whose baseline digest is NaN. When the names of the baseline
  are distinct and \<open>n\<close> is among the current files, the whole comparison is the one of
  the baseline without the row. When \<open>n\<close> is not among the current files, the row still
  gives a record (\<open>n\<close>, NaN, NaN, \<^verbatim>\<open>new\<close>), and the comparison of the baseline without
  the rows of \<open>n\<close> is the comparison with the records of \<open>n\<close> taken out.
\<close>

theorem compare_checksums_null_digest_is_new:
  assumes "(n, NaN) \<in> set B"
  shows "\<exists>out. compare_checksums (Checksums B) (Checksums N) = Inr out
           \<and> list_ex (\<lambda>r. filename r = n \<and> isna (sha256_baseline r) \<and> status r = ''new'') out
           \<and> list_all (\<lambda>r. isna (sha256_baseline r) = (status r = ''new'')) out
           \<and> (distinct (map fst B) \<and> n \<in> names_of N \<longrightarrow>
                compare_checksums (Checksums (filter (\<lambda>r. fst r \<noteq> n) B)) (Checksums N) = Inr out)
           \<and> (n \<notin> names_of N \<longrightarrow>
                list_ex (\<lambda>r. filename r = n \<and> isna (sha256_baseline r) \<and> isna (sha256_new r)
                               \<and> status r = ''new'') out
                \<and> compare_checksums (Checksums (filter (\<lambda>r. fst r \<noteq> n) B)) (Checksums N)
                    = Inr (filter (\<lambda>r. filename r \<noteq> n) out))"
proof -
  let ?out = "map classify (merge_outer B N)"
  from assms have key: "n \<in> set (merge_keys B N)"
    by (force simp: set_merge_keys names_of_def)
  obtain c where "(n, NaN, c) \<in> set (join_key n B N)"
    using join_key_has_null [OF assms] by blast
  with key have "(n, NaN, c) \<in> set (merge_outer B N)"
    by (auto simp: merge_outer_def)
  then have "classify (n, NaN, c) \<in> set ?out" by simp
  then have ex: "list_ex (\<lambda>r. filename r = n \<and> isna (sha256_baseline r) \<and> status r = ''new'') ?out"
    unfolding list_ex_iff
    by (rule rev_bexI) (simp add: classify_def row_status_def)
  have all: "list_all (\<lambda>r. isna (sha256_baseline r) = (status r = ''new'')) ?out"
    by (auto simp: list_all_iff classify_def row_status_def split: if_splits)
  have same: "compare_checksums (Checksums (filter (\<lambda>r. fst r \<noteq> n) B)) (Checksums N) = Inr ?out"
    if "distinct (map fst B)" and "n \<in> names_of N"
    using merge_outer_null_row [OF that(1) assms that(2)] by simp
  have only: "list_ex (\<lambda>r. filename r = n \<and> isna (sha256_baseline r) \<and> isna (sha256_new r)
                             \<and> status r = ''new'') ?out"
    if "n \<notin> names_of N"
  proof -
    from key join_key_only_baseline [OF assms that] have "(n, NaN, NaN) \<in> set (merge_outer B N)"
      by (auto simp: merge_outer_def)
    then have "classify (n, NaN, NaN) \<in> set ?out" by simp
    then show ?thesis
      unfolding list_ex_iff
      by (rule rev_bexI) (simp add: classify_def row_status_def)
  qed
  have dropped: "compare_checksums (Checksums (filter (\<lambda>r. fst r \<noteq> n) B)) (Checksums N)
                   = Inr (filter (\<lambda>r. filename r \<noteq> n) ?out)"
    if "n \<notin> names_of N"
    using merge_outer_drop_null_row [OF that] by simp
  from ex all same only dropped show ?thesis by simp
qed

theorem compare_checksums_null_digest_is_new_witness:
  "(\<exists>out. compare_checksums
            (Checksums [(Str ''a.txt'', Str ''d1''), (Str ''b.txt'', NaN)])
            (Checksums [(Str ''b.txt'', Str ''d3'')]) = Inr out
         \<and> list_ex (\<lambda>r. filename r = Str ''b.txt'' \<and> isna (sha256_baseline r)
                          \<and> status r = ''new'') out
         \<and> compare_checksums (Checksums [(Str ''a.txt'', Str ''d1'')])
             (Checksums [(Str ''b.txt'', Str ''d3'')]) = Inr out)
   \<and> (\<exists>out. compare_checksums
            (Checksums [(Str ''a.txt'', Str ''d1''), (Str ''b.txt'', NaN)])
            (Checksums [(Str ''c.txt'', Str ''d3'')]) = Inr out
         \<and> list_ex (\<lambda>r. filename r = Str ''b.txt'' \<and> isna (sha256_baseline r)
                          \<and> isna (sha256_new r) \<and> status r = ''new'') out
         \<and> compare_checksums (Checksums [(Str ''a.txt'', Str ''d1'')])
             (Checksums [(Str ''c.txt'', Str ''d3'')])
             = Inr (filter (\<lambda>r. filename r \<noteq> Str ''b.txt'') out))"
proof
  show "\<exists>out. compare_checksums
            (Checksums [(Str ''a.txt'', Str ''d1''), (Str ''b.txt'', NaN)])
            (Checksums [(Str ''b.txt'', Str ''d3'')]) = Inr out
         \<and> list_ex (\<lambda>r. filename r = Str ''b.txt'' \<and> isna (sha256_baseline r)
                          \<and> status r = ''new'') out
         \<and> compare_checksums (Checksums [(Str ''a.txt'', Str ''d1'')])
             (Checksums [(Str ''b.txt'', Str ''d3'')]) = Inr out"
    using compare_checksums_null_digest_is_new
      [of "Str ''b.txt''" "[(Str ''a.txt'', Str ''d1''), (Str ''b.txt'', NaN)]"
          "[(Str ''b.txt'', Str ''d3'')]"]
    by (auto simp: names_of_def)
  show "\<exists>out. compare_checksums
            (Checksums [(Str ''a.txt'', Str ''d1''), (Str ''b.txt'', NaN)])
            (Checksums [(Str ''c.txt'', Str ''d3'')]) = Inr out
         \<and> list_ex (\<lambda>r. filename r = Str ''b.txt'' \<and> isna (sha256_baseline r)
                          \<and> isna (sha256_new r) \<and> status r = ''new'') out
         \<and> compare_checksums (Checksums [(Str ''a.txt'', Str ''d1'')])
             (Checksums [(Str ''c.txt'', Str ''d3'')])
             = Inr (filter (\<lambda>r. filename r \<noteq> Str ''b.txt'') out)"
    using compare_checksums_null_digest_is_new
      [of "Str ''b.txt''" "[(Str ''a.txt'', Str ''d1''), (Str ''b.txt'', NaN)]"
          "[(Str ''c.txt'', Str ''d3'')]"]
    by (auto simp: names_of_def)
qed

text \<open>
  Claim C10 as stated fails: with \<^verbatim>\<open>b.txt\<close> in the baseline without a digest and not
  among the current files, the comparison has a record for \<^verbatim>\<open>b.txt\<close>, and the
  comparison of the baseline without \<^verbatim>\<open>b.txt\<close> has none. A name without a digest is
  told apart from an absent name.
\<close>

theorem compare_checksums_null_digest_counterexample:
  "compare_checksums
     (Checksums [(Str ''a.txt'', Str ''d1''), (Str ''b.txt'', NaN)])
     (Checksums [(Str ''c.txt'', Str ''d3'')])
     = Inr [\<lparr>filename = Str ''a.txt'', sha256_baseline = Str ''d1'', sha256_new = NaN,
              status = ''missing''\<rparr>,
            \<lparr>filename = Str ''b.txt'', sha256_baseline = NaN, sha256_new = NaN,
              status = ''new''\<rparr>,
            \<lparr>filename = Str ''c.txt'', sha256_baseline = NaN, sha256_new = Str ''d3'',
              status = ''new''\<rparr>]
   \<and> compare_checksums
       (Checksums [(Str ''a.txt'', Str ''d1'')])
       (Checksums [(Str ''c.txt'', Str ''d3'')])
     = Inr [\<lparr>filename = Str ''a.txt'', sha256_baseline = Str ''d1'', sha256_new = NaN,
              status = ''missing''\<rparr>,
            \<lparr>filename = Str ''c.txt'', sha256_baseline = NaN, sha256_new = Str ''d3'',
              status = ''new''\<rparr>]"
  by (simp add: merge_outer_def merge_keys_def cell_key_def join_key_def values_of_def
      classify_def row_status_def)

text \<open>
  Claim C4, as the code has it. For the baseline with the one entry \<^verbatim>\<open>a.txt\<close> and a
  current table that has its two columns and no rows, \<^verbatim>\<open>compare_checksums\<close> returns the
  one record (\<^verbatim>\<open>a.txt\<close>, \<open>d1\<close>, NaN, \<^verbatim>\<open>missing\<close>). With an empty list of uploaded files
  the comparison mode does not call it: \<^verbatim>\<open>if baseline_file and new_files\<close> (line 135)
  is false and the prompt is shown.
\<close>

theorem compare_checksums_empty_current:
  "compare_checksums (Checksums [(Str ''a.txt'', Str d1)]) (Checksums [])
     = Inr [\<lparr>filename = Str ''a.txt'', sha256_baseline = Str d1, sha256_new = NaN,
             status = ''missing''\<rparr>]
   \<and> main_compare baseline_file [] = Prompt"
  by (simp add: merge_outer_def merge_keys_def join_key_def values_of_def classify_def
      row_status_def main_compare_def split: option.split)

text \<open>
  Claim C4 as stated fails: for an empty list of files \<^verbatim>\<open>compute_checksums\<close> returns
  \<^verbatim>\<open>pd.DataFrame([])\<close>, a table without columns, and \<^verbatim>\<open>pd.merge\<close> on the column
  \<^verbatim>\<open>filename\<close> raises \<^verbatim>\<open>KeyError\<close> instead of returning a record.
\<close>

theorem compare_checksums_no_files_counterexample:
  "compute_checksums [] = Inr NoColumns
   \<and> compare_checksums (Checksums [(Str ''a.txt'', Str ''d1'')]) NoColumns
       = Inl (KeyError ''filename'')"
  by (simp add: compute_checksums_def DataFrame_def)

text \<open>
  Claim C5. When the baseline table lacks the column \<^verbatim>\<open>filename\<close> or the column
  \<^verbatim>\<open>sha256\<close>, the comparison mode (entered with at least one current file) ends with
  the malformed-baseline error; it never shows a comparison table. The check comes before
  the current files are read and before the merge: the result is the same whatever the
  files are, unreadable ones included.
\<close>

theorem main_compare_malformed_baseline:
  assumes "''filename'' \<notin> set (columns baseline_df) \<or> ''sha256'' \<notin> set (columns baseline_df)"
  shows "(new_files \<noteq> [] \<longrightarrow>
            main_compare (Some (Inr baseline_df)) new_files = Malformed_baseline)
       \<and> (\<forall>t. main_compare (Some (Inr baseline_df)) new_files \<noteq> Results t)"
  using assms by (auto simp: main_compare_def)

theorem main_compare_malformed_baseline_witness:
  "main_compare
     (Some (Inr \<lparr>columns = [''filename'', ''md5''], rows = [[Str ''a.txt'', Str ''00'']]\<rparr>))
     [\<lparr>name = ''a.txt'', content = None\<rparr>] = Malformed_baseline"
  using main_compare_malformed_baseline
    [of "\<lparr>columns = [''filename'', ''md5''], rows = [[Str ''a.txt'', Str ''00'']]\<rparr>"
        "[\<lparr>name = ''a.txt'', content = None\<rparr>]"]
  by simp

section \<open>Properties of the digest\<close>

subsection \<open>Its length and its characters\<close>

lemma length_round256: "length (round256 s kw) = length s"
  by (induction s kw rule: round256.induct) (simp_all add: Let_def)

lemma length_foldl_round256: "length (foldl round256 s kws) = length s"
  by (induction kws arbitrary: s) (simp_all add: length_round256)

lemma length_compress: "length (compress h block) = length h"
  by (simp add: compress_def length_foldl_round256)

lemma length_foldl_compress: "length (foldl compress h bs) = length h"
  by (induction bs arbitrary: h) (simp_all add: length_compress)

lemma length_sha256: "length (sha256 m) = 32"
proof -
  have "length (concat (map word_bytes ws)) = 4 * length ws" for ws
    by (induction ws) (simp_all add: word_bytes_def)
  then show ?thesis
    by (simp add: sha256_def length_foldl_compress H256_def)
qed

lemma length_hexdigest: "length (hexdigest bs) = 2 * length bs"
  by (induction bs) (simp_all add: hexdigest_def)

lemma hexdigit_lowercase: "hexdigit n \<in> set ''0123456789abcdef''"
proof -
  have "n mod 16 < length ''0123456789abcdef''" by simp
  then have "''0123456789abcdef'' ! (n mod 16) \<in> set ''0123456789abcdef''"
    by (rule nth_mem)
  then show ?thesis by (simp only: hexdigit_def)
qed

lemma set_hexdigest: "set (hexdigest bs) \<subseteq> set ''0123456789abcdef''"
  using hexdigit_lowercase by (induction bs) (simp_all add: hexdigest_def)

subsection \<open>Evaluating the hash\<close>

text \<open>
  A digest is evaluated in steps, each stated with the words it reaches: the padded
  message and its blocks, the sixty-four words of the message schedule of a block
  (sixteen at a time), and the rounds of the compression (eight at a time). The two
  rules below unfold one step of the schedule and one round without their local
  bindings.
\<close>

lemma replicate_numeral: "replicate (numeral k) x = x # replicate (pred_numeral k) x"
  by (simp add: numeral_eq_Suc)

lemma schedule_numeral:
  "schedule (numeral k) w =
     schedule (pred_numeral k)
       (w @ [sigma1 (w ! (length w - 2)) + w ! (length w - 7) + sigma0 (w ! (length w - 15))
              + w ! (length w - 16)])"
  by (simp add: numeral_eq_Suc Let_def)

lemma schedule_add: "schedule (m + n) w = schedule n (schedule m w)"
  by (induction m arbitrary: w) (simp_all add: Let_def)

lemma round256_unfold:
  "round256 [a, b, c, d, e, f, g, h] (k, w) =
     [h + Sigma1 e + Ch e f g + k + w + (Sigma0 a + Maj a b c), a, b, c,
      d + (h + Sigma1 e + Ch e f g + k + w), e, f, g]"
  by (simp add: Let_def)

subsection \<open>The digest of the empty content\<close>

lemma pad_empty:
  "pad [] =
     [0x80, 0x00, 0x00, 0x00, 0x00, 0x00, 0x00, 0x00, 0x00, 0x00, 0x00, 0x00, 0x00, 0x00, 0x00, 0x00,
     0x00, 0x00, 0x00, 0x00, 0x00, 0x00, 0x00, 0x00, 0x00, 0x00, 0x00, 0x00, 0x00, 0x00, 0x00, 0x00,
     0x00, 0x00, 0x00, 0x00, 0x00, 0x00, 0x00, 0x00, 0x00, 0x00, 0x00, 0x00, 0x00, 0x00, 0x00, 0x00,
     0x00, 0x00, 0x00, 0x00, 0x00, 0x00, 0x00, 0x00, 0x00, 0x00, 0x00, 0x00, 0x00, 0x00, 0x00, 0x00]"
  by (simp add: pad_def be_bytes_def upt_rec replicate_numeral)

lemma blocks_empty:
  "blocks
     [0x80, 0x00, 0x00, 0x00, 0x00, 0x00, 0x00, 0x00, 0x00, 0x00, 0x00, 0x00, 0x00, 0x00, 0x00, 0x00,
     0x00, 0x00, 0x00, 0x00, 0x00, 0x00, 0x00, 0x00, 0x00, 0x00, 0x00, 0x00, 0x00, 0x00, 0x00, 0x00,
     0x00, 0x00, 0x00, 0x00, 0x00, 0x00, 0x00, 0x00, 0x00, 0x00, 0x00, 0x00, 0x00, 0x00, 0x00, 0x00,
     0x00, 0x00, 0x00, 0x00, 0x00, 0x00, 0x00, 0x00, 0x00, 0x00, 0x00, 0x00, 0x00, 0x00, 0x00, 0x00] =
     [[0x80, 0x00, 0x00, 0x00, 0x00, 0x00, 0x00, 0x00, 0x00, 0x00, 0x00, 0x00, 0x00, 0x00, 0x00, 0x00,
       0x00, 0x00, 0x00, 0x00, 0x00, 0x00, 0x00, 0x00, 0x00, 0x00, 0x00, 0x00, 0x00, 0x00, 0x00, 0x00,
       0x00, 0x00, 0x00, 0x00, 0x00, 0x00, 0x00, 0x00, 0x00, 0x00, 0x00, 0x00, 0x00, 0x00, 0x00, 0x00,
       0x00, 0x00, 0x00, 0x00, 0x00, 0x00, 0x00, 0x00, 0x00, 0x00, 0x00, 0x00, 0x00, 0x00, 0x00, 0x00]]"
  by simp

lemma be_words_empty:
  "be_words
     [0x80, 0x00, 0x00, 0x00, 0x00, 0x00, 0x00, 0x00, 0x00, 0x00, 0x00, 0x00, 0x00, 0x00, 0x00, 0x00,
     0x00, 0x00, 0x00, 0x00, 0x00, 0x00, 0x00, 0x00, 0x00, 0x00, 0x00, 0x00, 0x00, 0x00, 0x00, 0x00,
     0x00, 0x00, 0x00, 0x00, 0x00, 0x00, 0x00, 0x00, 0x00, 0x00, 0x00, 0x00, 0x00, 0x00, 0x00, 0x00,
     0x00, 0x00, 0x00, 0x00, 0x00, 0x00, 0x00, 0x00, 0x00, 0x00, 0x00, 0x00, 0x00, 0x00, 0x00, 0x00] =
     [0x80000000, 0x00000000, 0x00000000, 0x00000000, 0x00000000, 0x00000000, 0x00000000, 0x00000000,
     0x00000000, 0x00000000, 0x00000000, 0x00000000, 0x00000000, 0x00000000, 0x00000000, 0x00000000]"
  by simp

lemma schedule_empty_a:
  "schedule 16
     [0x80000000, 0x00000000, 0x00000000, 0x00000000, 0x00000000, 0x00000000, 0x00000000, 0x00000000,
     0x00000000, 0x00000000, 0x00000000, 0x00000000, 0x00000000, 0x00000000, 0x00000000, 0x00000000] =
     [0x80000000, 0x00000000, 0x00000000, 0x00000000, 0x00000000, 0x00000000, 0x00000000, 0x00000000,
     0x00000000, 0x00000000, 0x00000000, 0x00000000, 0x00000000, 0x00000000, 0x00000000, 0x00000000,
     0x80000000, 0x00000000, 0x00205000, 0x00000000, 0x22000800, 0x00000000, 0x05089542, 0x80000000,
     0x58080000, 0x0040A000, 0x00162505, 0x66001800, 0xD6222580, 0x14225508, 0xD645F95C, 0xC9282000]"
  by (simp add: schedule_numeral sigma0_def sigma1_def rotr_def)

lemma schedule_empty_b:
  "schedule 16
     [0x80000000, 0x00000000, 0x00000000, 0x00000000, 0x00000000, 0x00000000, 0x00000000, 0x00000000,
     0x00000000, 0x00000000, 0x00000000, 0x00000000, 0x00000000, 0x00000000, 0x00000000, 0x00000000,
     0x80000000, 0x00000000, 0x00205000, 0x00000000, 0x22000800, 0x00000000, 0x05089542, 0x80000000,
     0x58080000, 0x0040A000, 0x00162505, 0x66001800, 0xD6222580, 0x14225508, 0xD645F95C, 0xC9282000] =
     [0x80000000, 0x00000000, 0x00000000, 0x00000000, 0x00000000, 0x00000000, 0x00000000, 0x00000000,
     0x00000000, 0x00000000, 0x00000000, 0x00000000, 0x00000000, 0x00000000, 0x00000000, 0x00000000,
     0x80000000, 0x00000000, 0x00205000, 0x00000000, 0x22000800, 0x00000000, 0x05089542, 0x80000000,
     0x58080000, 0x0040A000, 0x00162505, 0x66001800, 0xD6222580, 0x14225508, 0xD645F95C, 0xC9282000,
     0xC3F10094, 0x284CA766, 0x06886DC6, 0xA37BF116, 0x717CBE96, 0xFEC2D74A, 0xA7B67F00, 0x811596A2,
     0x98A6E768, 0x03B20C82, 0x5D1DA7C9, 0xB156B935, 0xC3DDCA11, 0x249C107F, 0xC48D24EF, 0x5DE54C30]"
  by (simp add: schedule_numeral sigma0_def sigma1_def rotr_def)

lemma schedule_empty_c:
  "schedule 16
     [0x80000000, 0x00000000, 0x00000000, 0x00000000, 0x00000000, 0x00000000, 0x00000000, 0x00000000,
     0x00000000, 0x00000000, 0x00000000, 0x00000000, 0x00000000, 0x00000000, 0x00000000, 0x00000000,
     0x80000000, 0x00000000, 0x00205000, 0x00000000, 0x22000800, 0x00000000, 0x05089542, 0x80000000,
     0x58080000, 0x0040A000, 0x00162505, 0x66001800, 0xD6222580, 0x14225508, 0xD645F95C, 0xC9282000,
     0xC3F10094, 0x284CA766, 0x06886DC6, 0xA37BF116, 0x717CBE96, 0xFEC2D74A, 0xA7B67F00, 0x811596A2,
     0x98A6E768, 0x03B20C82, 0x5D1DA7C9, 0xB156B935, 0xC3DDCA11, 0x249C107F, 0xC48D24EF, 0x5DE54C30] =
     [0x80000000, 0x00000000, 0x00000000, 0x00000000, 0x00000000, 0x00000000, 0x00000000, 0x00000000,
     0x00000000, 0x00000000, 0x00000000, 0x00000000, 0x00000000, 0x00000000, 0x00000000, 0x00000000,
     0x80000000, 0x00000000, 0x00205000, 0x00000000, 0x22000800, 0x00000000, 0x05089542, 0x80000000,
     0x58080000, 0x0040A000, 0x00162505, 0x66001800, 0xD6222580, 0x14225508, 0xD645F95C, 0xC9282000,
     0xC3F10094, 0x284CA766, 0x06886DC6, 0xA37BF116, 0x717CBE96, 0xFEC2D74A, 0xA7B67F00, 0x811596A2,
     0x98A6E768, 0x03B20C82, 0x5D1DA7C9, 0xB156B935, 0xC3DDCA11, 0x249C107F, 0xC48D24EF, 0x5DE54C30,
     0xDEFECE65, 0x2CA1480D, 0x3C15332C, 0x01CEC9AD, 0x160CCCD0, 0x0BACDA98, 0x361B8FE0, 0xD2320BA6,
     0x029B7007, 0x7546587C, 0x07F54F39, 0xF808DDC3, 0xDCCA7608, 0x5E427188, 0x44BCEC5D, 0x3B5EC49B]"
  by (simp add: schedule_numeral sigma0_def sigma1_def rotr_def)

lemma schedule_empty:
  "schedule 48
     [0x80000000, 0x00000000, 0x00000000, 0x00000000, 0x00000000, 0x00000000, 0x00000000, 0x00000000,
     0x00000000, 0x00000000, 0x00000000, 0x00000000, 0x00000000, 0x00000000, 0x00000000, 0x00000000] =
     [0x80000000, 0x00000000, 0x00000000, 0x00000000, 0x00000000, 0x00000000, 0x00000000, 0x00000000,
     0x00000000, 0x00000000, 0x00000000, 0x00000000, 0x00000000, 0x00000000, 0x00000000, 0x00000000,
     0x80000000, 0x00000000, 0x00205000, 0x00000000, 0x22000800, 0x00000000, 0x05089542, 0x80000000,
     0x58080000, 0x0040A000, 0x00162505, 0x66001800, 0xD6222580, 0x14225508, 0xD645F95C, 0xC9282000,
     0xC3F10094, 0x284CA766, 0x06886DC6, 0xA37BF116, 0x717CBE96, 0xFEC2D74A, 0xA7B67F00, 0x811596A2,
     0x98A6E768, 0x03B20C82, 0x5D1DA7C9, 0xB156B935, 0xC3DDCA11, 0x249C107F, 0xC48D24EF, 0x5DE54C30,
     0xDEFECE65, 0x2CA1480D, 0x3C15332C, 0x01CEC9AD, 0x160CCCD0, 0x0BACDA98, 0x361B8FE0, 0xD2320BA6,
     0x029B7007, 0x7546587C, 0x07F54F39, 0xF808DDC3, 0xDCCA7608, 0x5E427188, 0x44BCEC5D, 0x3B5EC49B]"
proof -
  have "schedule 48
          [0x80000000, 0x00000000, 0x00000000, 0x00000000, 0x00000000, 0x00000000, 0x00000000, 0x00000000,
          0x00000000, 0x00000000, 0x00000000, 0x00000000, 0x00000000, 0x00000000, 0x00000000, 0x00000000]
        = schedule (16 + 16 + 16)
          [0x80000000, 0x00000000, 0x00000000, 0x00000000, 0x00000000, 0x00000000, 0x00000000, 0x00000000,
          0x00000000, 0x00000000, 0x00000000, 0x00000000, 0x00000000, 0x00000000, 0x00000000, 0x00000000]"
    by simp
  then show ?thesis
    by (simp only: schedule_add schedule_empty_a schedule_empty_b schedule_empty_c)
qed

lemma rounds_empty_a:
  "foldl round256
     [0x6A09E667, 0xBB67AE85, 0x3C6EF372, 0xA54FF53A, 0x510E527F, 0x9B05688C, 0x1F83D9AB, 0x5BE0CD19]
     [(0x428A2F98, 0x80000000), (0x71374491, 0x00000000), (0xB5C0FBCF, 0x00000000), (0xE9B5DBA5, 0x00000000),
      (0x3956C25B, 0x00000000), (0x59F111F1, 0x00000000), (0x923F82A4, 0x00000000), (0xAB1C5ED5, 0x00000000)] =
     [0x7AD5B1B6, 0xF0205590, 0x292E3B42, 0x4366F730, 0x53F94DCB, 0x82EDE06F, 0x4F6540FA, 0xE7D0641E]"
  by (simp add: round256_unfold Sigma0_def Sigma1_def Ch_def Maj_def rotr_def
      del: round256.simps)

lemma rounds_empty_b:
  "foldl round256
     [0x7AD5B1B6, 0xF0205590, 0x292E3B42, 0x4366F730, 0x53F94DCB, 0x82EDE06F, 0x4F6540FA, 0xE7D0641E]
     [(0xD807AA98, 0x00000000), (0x12835B01, 0x00000000), (0x243185BE, 0x00000000), (0x550C7DC3, 0x00000000),
      (0x72BE5D74, 0x00000000), (0x80DEB1FE, 0x00000000), (0x9BDC06A7, 0x00000000), (0xC19BF174, 0x00000000)] =
     [0xB40085B5, 0xB88AFDDB, 0x45C013A7, 0x2102D2CD, 0x5CB8E863, 0x1CCFAC39, 0x2B427296, 0xCDFDFE52]"
  by (simp add: round256_unfold Sigma0_def Sigma1_def Ch_def Maj_def rotr_def
      del: round256.simps)

lemma rounds_empty_c:
  "foldl round256
     [0xB40085B5, 0xB88AFDDB, 0x45C013A7, 0x2102D2CD, 0x5CB8E863, 0x1CCFAC39, 0x2B427296, 0xCDFDFE52]
     [(0xE49B69C1, 0x80000000), (0xEFBE4786, 0x00000000), (0x0FC19DC6, 0x00205000), (0x240CA1CC, 0x00000000),
      (0x2DE92C6F, 0x22000800), (0x4A7484AA, 0x00000000), (0x5CB0A9DC, 0x05089542), (0x76F988DA, 0x80000000)] =
     [0x985BED55, 0x404D8054, 0x99A6CB19, 0x75C7F0D8, 0x2C2C028D, 0xB1653710, 0xC287981E, 0x39953CCD]"
  by (simp add: round256_unfold Sigma0_def Sigma1_def Ch_def Maj_def rotr_def
      del: round256.simps)

lemma rounds_empty_d:
  "foldl round256
     [0x985BED55, 0x404D8054, 0x99A6CB19, 0x75C7F0D8, 0x2C2C028D, 0xB1653710, 0xC287981E, 0x39953CCD]
     [(0x983E5152, 0x58080000), (0xA831C66D, 0x0040A000), (0xB00327C8, 0x00162505), (0xBF597FC7, 0x66001800),
      (0xC6E00BF3, 0xD6222580), (0xD5A79147, 0x14225508), (0x06CA6351, 0xD645F95C), (0x14292967, 0xC9282000)] =
     [0x11E7025F, 0xA0BB0CDF, 0x72D3A00D, 0x64BC9E1C, 0xBBD7846C, 0x564A6626, 0xB04AB22D, 0x95696B75]"
  by (simp add: round256_unfold Sigma0_def Sigma1_def Ch_def Maj_def rotr_def
      del: round256.simps)

lemma rounds_empty_e:
  "foldl round256
     [0x11E7025F, 0xA0BB0CDF, 0x72D3A00D, 0x64BC9E1C, 0xBBD7846C, 0x564A6626, 0xB04AB22D, 0x95696B75]
     [(0x27B70A85, 0xC3F10094), (0x2E1B2138, 0x284CA766), (0x4D2C6DFC, 0x06886DC6), (0x53380D13, 0xA37BF116),
      (0x650A7354, 0x717CBE96), (0x766A0ABB, 0xFEC2D74A), (0x81C2C92E, 0xA7B67F00), (0x92722C85, 0x811596A2)] =
     [0x499911B1, 0x9E58E42F, 0x56E3DC4E, 0xA096535D, 0x716BB025, 0x85A71424, 0xE807EA7F, 0xFAC06AED]"
  by (simp add: round256_unfold Sigma0_def Sigma1_def Ch_def Maj_def rotr_def
      del: round256.simps)

lemma rounds_empty_f:
  "foldl round256
     [0x499911B1, 0x9E58E42F, 0x56E3DC4E, 0xA096535D, 0x716BB025, 0x85A71424, 0xE807EA7F, 0xFAC06AED]
     [(0xA2BFE8A1, 0x98A6E768), (0xA81A664B, 0x03B20C82), (0xC24B8B70, 0x5D1DA7C9), (0xC76C51A3, 0xB156B935),
      (0xD192E819, 0xC3DDCA11), (0xD6990624, 0x249C107F), (0xF40E3585, 0xC48D24EF), (0x106AA070, 0x5DE54C30)] =
     [0x365A34CD, 0x54982D6C, 0x32FA442B, 0xA40972D4, 0xCBB3F8EB, 0x8A6A82B2, 0xD285C679, 0xAA2C1810]"
  by (simp add: round256_unfold Sigma0_def Sigma1_def Ch_def Maj_def rotr_def
      del: round256.simps)

lemma rounds_empty_g:
  "foldl round256
     [0x365A34CD, 0x54982D6C, 0x32FA442B, 0xA40972D4, 0xCBB3F8EB, 0x8A6A82B2, 0xD285C679, 0xAA2C1810]
     [(0x19A4C116, 0xDEFECE65), (0x1E376C08, 0x2CA1480D), (0x2748774C, 0x3C15332C), (0x34B0BCB5, 0x01CEC9AD),
      (0x391C0CB3, 0x160CCCD0), (0x4ED8AA4A, 0x0BACDA98), (0x5B9CCA4F, 0x361B8FE0), (0x682E6FF3, 0xD2320BA6)] =
     [0x01638014, 0x2CAF58CA, 0x3A0E9477, 0xB1B29C90, 0xADF94E0A, 0xE588E598, 0xFD99936E, 0x43A5DEF8]"
  by (simp add: round256_unfold Sigma0_def Sigma1_def Ch_def Maj_def rotr_def
      del: round256.simps)

lemma rounds_empty_h:
  "foldl round256
     [0x01638014, 0x2CAF58CA, 0x3A0E9477, 0xB1B29C90, 0xADF94E0A, 0xE588E598, 0xFD99936E, 0x43A5DEF8]
     [(0x748F82EE, 0x029B7007), (0x78A5636F, 0x7546587C), (0x84C87814, 0x07F54F39), (0x8CC70208, 0xF808DDC3),
      (0x90BEFFFA, 0xDCCA7608), (0xA4506CEB, 0x5E427188), (0xBEF9A3F7, 0x44BCEC5D), (0xC67178F2, 0x3B5EC49B)] =
     [0x79A6DDDB, 0xDD946D8F, 0x5E8D0156, 0xF41FC3EA, 0xD69FEF65, 0xC9962AC0, 0x8511BF70, 0x1C71EB3C]"
  by (simp add: round256_unfold Sigma0_def Sigma1_def Ch_def Maj_def rotr_def
      del: round256.simps)

lemma rounds_empty:
  "foldl round256
     [0x6A09E667, 0xBB67AE85, 0x3C6EF372, 0xA54FF53A, 0x510E527F, 0x9B05688C, 0x1F83D9AB, 0x5BE0CD19]
     (zip K256
        [0x80000000, 0x00000000, 0x00000000, 0x00000000, 0x00000000, 0x00000000, 0x00000000, 0x00000000,
        0x00000000, 0x00000000, 0x00000000, 0x00000000, 0x00000000, 0x00000000, 0x00000000, 0x00000000,
        0x80000000, 0x00000000, 0x00205000, 0x00000000, 0x22000800, 0x00000000, 0x05089542, 0x80000000,
        0x58080000, 0x0040A000, 0x00162505, 0x66001800, 0xD6222580, 0x14225508, 0xD645F95C, 0xC9282000,
        0xC3F10094, 0x284CA766, 0x06886DC6, 0xA37BF116, 0x717CBE96, 0xFEC2D74A, 0xA7B67F00, 0x811596A2,
        0x98A6E768, 0x03B20C82, 0x5D1DA7C9, 0xB156B935, 0xC3DDCA11, 0x249C107F, 0xC48D24EF, 0x5DE54C30,
        0xDEFECE65, 0x2CA1480D, 0x3C15332C, 0x01CEC9AD, 0x160CCCD0, 0x0BACDA98, 0x361B8FE0, 0xD2320BA6,
        0x029B7007, 0x7546587C, 0x07F54F39, 0xF808DDC3, 0xDCCA7608, 0x5E427188, 0x44BCEC5D, 0x3B5EC49B]) =
     [0x79A6DDDB, 0xDD946D8F, 0x5E8D0156, 0xF41FC3EA, 0xD69FEF65, 0xC9962AC0, 0x8511BF70, 0x1C71EB3C]"
proof -
  have "zip K256
          ([0x80000000, 0x00000000, 0x00000000, 0x00000000, 0x00000000, 0x00000000, 0x00000000, 0x00000000,
           0x00000000, 0x00000000, 0x00000000, 0x00000000, 0x00000000, 0x00000000, 0x00000000, 0x00000000,
           0x80000000, 0x00000000, 0x00205000, 0x00000000, 0x22000800, 0x00000000, 0x05089542, 0x80000000,
           0x58080000, 0x0040A000, 0x00162505, 0x66001800, 0xD6222580, 0x14225508, 0xD645F95C, 0xC9282000,
           0xC3F10094, 0x284CA766, 0x06886DC6, 0xA37BF116, 0x717CBE96, 0xFEC2D74A, 0xA7B67F00, 0x811596A2,
           0x98A6E768, 0x03B20C82, 0x5D1DA7C9, 0xB156B935, 0xC3DDCA11, 0x249C107F, 0xC48D24EF, 0x5DE54C30,
           0xDEFECE65, 0x2CA1480D, 0x3C15332C, 0x01CEC9AD, 0x160CCCD0, 0x0BACDA98, 0x361B8FE0, 0xD2320BA6,
           0x029B7007, 0x7546587C, 0x07F54F39, 0xF808DDC3, 0xDCCA7608, 0x5E427188, 0x44BCEC5D, 0x3B5EC49B] :: u32 list) =
       [(0x428A2F98, 0x80000000), (0x71374491, 0x00000000), (0xB5C0FBCF, 0x00000000), (0xE9B5DBA5, 0x00000000),
        (0x3956C25B, 0x00000000), (0x59F111F1, 0x00000000), (0x923F82A4, 0x00000000), (0xAB1C5ED5, 0x00000000)] @
       [(0xD807AA98, 0x00000000), (0x12835B01, 0x00000000), (0x243185BE, 0x00000000), (0x550C7DC3, 0x00000000),
        (0x72BE5D74, 0x00000000), (0x80DEB1FE, 0x00000000), (0x9BDC06A7, 0x00000000), (0xC19BF174, 0x00000000)] @
       [(0xE49B69C1, 0x80000000), (0xEFBE4786, 0x00000000), (0x0FC19DC6, 0x00205000), (0x240CA1CC, 0x00000000),
        (0x2DE92C6F, 0x22000800), (0x4A7484AA, 0x00000000), (0x5CB0A9DC, 0x05089542), (0x76F988DA, 0x80000000)] @
       [(0x983E5152, 0x58080000), (0xA831C66D, 0x0040A000), (0xB00327C8, 0x00162505), (0xBF597FC7, 0x66001800),
        (0xC6E00BF3, 0xD6222580), (0xD5A79147, 0x14225508), (0x06CA6351, 0xD645F95C), (0x14292967, 0xC9282000)] @
       [(0x27B70A85, 0xC3F10094), (0x2E1B2138, 0x284CA766), (0x4D2C6DFC, 0x06886DC6), (0x53380D13, 0xA37BF116),
        (0x650A7354, 0x717CBE96), (0x766A0ABB, 0xFEC2D74A), (0x81C2C92E, 0xA7B67F00), (0x92722C85, 0x811596A2)] @
       [(0xA2BFE8A1, 0x98A6E768), (0xA81A664B, 0x03B20C82), (0xC24B8B70, 0x5D1DA7C9), (0xC76C51A3, 0xB156B935),
        (0xD192E819, 0xC3DDCA11), (0xD6990624, 0x249C107F), (0xF40E3585, 0xC48D24EF), (0x106AA070, 0x5DE54C30)] @
       [(0x19A4C116, 0xDEFECE65), (0x1E376C08, 0x2CA1480D), (0x2748774C, 0x3C15332C), (0x34B0BCB5, 0x01CEC9AD),
        (0x391C0CB3, 0x160CCCD0), (0x4ED8AA4A, 0x0BACDA98), (0x5B9CCA4F, 0x361B8FE0), (0x682E6FF3, 0xD2320BA6)] @
       [(0x748F82EE, 0x029B7007), (0x78A5636F, 0x7546587C), (0x84C87814, 0x07F54F39), (0x8CC70208, 0xF808DDC3),
        (0x90BEFFFA, 0xDCCA7608), (0xA4506CEB, 0x5E427188), (0xBEF9A3F7, 0x44BCEC5D), (0xC67178F2, 0x3B5EC49B)]"
    by (simp add: K256_def)
  then show ?thesis
    by (simp only: foldl_append rounds_empty_a rounds_empty_b rounds_empty_c rounds_empty_d rounds_empty_e rounds_empty_f rounds_empty_g rounds_empty_h)
qed

lemma compress_empty:
  "compress
     [0x6A09E667, 0xBB67AE85, 0x3C6EF372, 0xA54FF53A, 0x510E527F, 0x9B05688C, 0x1F83D9AB, 0x5BE0CD19]
     [0x80, 0x00, 0x00, 0x00, 0x00, 0x00, 0x00, 0x00, 0x00, 0x00, 0x00, 0x00, 0x00, 0x00, 0x00, 0x00,
     0x00, 0x00, 0x00, 0x00, 0x00, 0x00, 0x00, 0x00, 0x00, 0x00, 0x00, 0x00, 0x00, 0x00, 0x00, 0x00,
     0x00, 0x00, 0x00, 0x00, 0x00, 0x00, 0x00, 0x00, 0x00, 0x00, 0x00, 0x00, 0x00, 0x00, 0x00, 0x00,
     0x00, 0x00, 0x00, 0x00, 0x00, 0x00, 0x00, 0x00, 0x00, 0x00, 0x00, 0x00, 0x00, 0x00, 0x00, 0x00] =
     [0xE3B0C442, 0x98FC1C14, 0x9AFBF4C8, 0x996FB924, 0x27AE41E4, 0x649B934C, 0xA495991B, 0x7852B855]"
  by (simp add: compress_def schedule_empty rounds_empty del: be_words.simps)
    (simp only: be_words_empty schedule_empty rounds_empty, simp)

lemma sha256_empty:
  "sha256 [] =
     [0xE3, 0xB0, 0xC4, 0x42, 0x98, 0xFC, 0x1C, 0x14, 0x9A, 0xFB, 0xF4, 0xC8, 0x99, 0x6F, 0xB9, 0x24,
     0x27, 0xAE, 0x41, 0xE4, 0x64, 0x9B, 0x93, 0x4C, 0xA4, 0x95, 0x99, 0x1B, 0x78, 0x52, 0xB8, 0x55]"
proof -
  have "foldl compress H256 (blocks (pad [])) =
          [0xE3B0C442, 0x98FC1C14, 0x9AFBF4C8, 0x996FB924, 0x27AE41E4, 0x649B934C, 0xA495991B, 0x7852B855]"
    by (simp only: pad_empty blocks_empty foldl.simps H256_def compress_empty)
  then show ?thesis
    by (simp only: sha256_def) (simp add: word_bytes_def)
qed

lemma checksum_empty:
  "checksum [] = ''e3b0c44298fc1c149afbf4c8996fb92427ae41e4649b934ca495991b7852b855''"
  by (simp only: checksum_def sha256_empty) (simp add: hexdigest_def hexdigit_def)

subsection \<open>The test vectors of FIPS 180-4\<close>

text \<open>
  The one-block message \<^verbatim>\<open>abc\<close> and the two-block message of 56 bytes, with the
  digests the standard gives for them.
\<close>

lemma pad_abc:
  "pad (map of_char ''abc'') =
     [0x61, 0x62, 0x63, 0x80, 0x00, 0x00, 0x00, 0x00, 0x00, 0x00, 0x00, 0x00, 0x00, 0x00, 0x00, 0x00,
     0x00, 0x00, 0x00, 0x00, 0x00, 0x00, 0x00, 0x00, 0x00, 0x00, 0x00, 0x00, 0x00, 0x00, 0x00, 0x00,
     0x00, 0x00, 0x00, 0x00, 0x00, 0x00, 0x00, 0x00, 0x00, 0x00, 0x00, 0x00, 0x00, 0x00, 0x00, 0x00,
     0x00, 0x00, 0x00, 0x00, 0x00, 0x00, 0x00, 0x00, 0x00, 0x00, 0x00, 0x00, 0x00, 0x00, 0x00, 0x18]"
  by (simp add: pad_def be_bytes_def upt_rec replicate_numeral)

lemma blocks_abc:
  "blocks
     [0x61, 0x62, 0x63, 0x80, 0x00, 0x00, 0x00, 0x00, 0x00, 0x00, 0x00, 0x00, 0x00, 0x00, 0x00, 0x00,
     0x00, 0x00, 0x00, 0x00, 0x00, 0x00, 0x00, 0x00, 0x00, 0x00, 0x00, 0x00, 0x00, 0x00, 0x00, 0x00,
     0x00, 0x00, 0x00, 0x00, 0x00, 0x00, 0x00, 0x00, 0x00, 0x00, 0x00, 0x00, 0x00, 0x00, 0x00, 0x00,
     0x00, 0x00, 0x00, 0x00, 0x00, 0x00, 0x00, 0x00, 0x00, 0x00, 0x00, 0x00, 0x00, 0x00, 0x00, 0x18] =
     [[0x61, 0x62, 0x63, 0x80, 0x00, 0x00, 0x00, 0x00, 0x00, 0x00, 0x00, 0x00, 0x00, 0x00, 0x00, 0x00,
       0x00, 0x00, 0x00, 0x00, 0x00, 0x00, 0x00, 0x00, 0x00, 0x00, 0x00, 0x00, 0x00, 0x00, 0x00, 0x00,
       0x00, 0x00, 0x00, 0x00, 0x00, 0x00, 0x00, 0x00, 0x00, 0x00, 0x00, 0x00, 0x00, 0x00, 0x00, 0x00,
       0x00, 0x00, 0x00, 0x00, 0x00, 0x00, 0x00, 0x00, 0x00, 0x00, 0x00, 0x00, 0x00, 0x00, 0x00, 0x18]]"
  by simp

lemma be_words_abc:
  "be_words
     [0x61, 0x62, 0x63, 0x80, 0x00, 0x00, 0x00, 0x00, 0x00, 0x00, 0x00, 0x00, 0x00, 0x00, 0x00, 0x00,
     0x00, 0x00, 0x00, 0x00, 0x00, 0x00, 0x00, 0x00, 0x00, 0x00, 0x00, 0x00, 0x00, 0x00, 0x00, 0x00,
     0x00, 0x00, 0x00, 0x00, 0x00, 0x00, 0x00, 0x00, 0x00, 0x00, 0x00, 0x00, 0x00, 0x00, 0x00, 0x00,
     0x00, 0x00, 0x00, 0x00, 0x00, 0x00, 0x00, 0x00, 0x00, 0x00, 0x00, 0x00, 0x00, 0x00, 0x00, 0x18] =
     [0x61626380, 0x00000000, 0x00000000, 0x00000000, 0x00000000, 0x00000000, 0x00000000, 0x00000000,
     0x00000000, 0x00000000, 0x00000000, 0x00000000, 0x00000000, 0x00000000, 0x00000000, 0x00000018]"
  by simp

lemma schedule_abc_a:
  "schedule 16
     [0x61626380, 0x00000000, 0x00000000, 0x00000000, 0x00000000, 0x00000000, 0x00000000, 0x00000000,
     0x00000000, 0x00000000, 0x00000000, 0x00000000, 0x00000000, 0x00000000, 0x00000000, 0x00000018] =
     [0x61626380, 0x00000000, 0x00000000, 0x00000000, 0x00000000, 0x00000000, 0x00000000, 0x00000000,
     0x00000000, 0x00000000, 0x00000000, 0x00000000, 0x00000000, 0x00000000, 0x00000000, 0x00000018,
     0x61626380, 0x000F0000, 0x7DA86405, 0x600003C6, 0x3E9D7B78, 0x0183FC00, 0x12DCBFDB, 0xE2E2C38E,
     0xC8215C1A, 0xB73679A2, 0xE5BC3909, 0x32663C5B, 0x9D209D67, 0xEC8726CB, 0x702138A4, 0xD3B7973B]"
  by (simp add: schedule_numeral sigma0_def sigma1_def rotr_def)

lemma schedule_abc_b:
  "schedule 16
     [0x61626380, 0x00000000, 0x00000000, 0x00000000, 0x00000000, 0x00000000, 0x00000000, 0x00000000,
     0x00000000, 0x00000000, 0x00000000, 0x00000000, 0x00000000, 0x00000000, 0x00000000, 0x00000018,
     0x61626380, 0x000F0000, 0x7DA86405, 0x600003C6, 0x3E9D7B78, 0x0183FC00, 0x12DCBFDB, 0xE2E2C38E,
     0xC8215C1A, 0xB73679A2, 0xE5BC3909, 0x32663C5B, 0x9D209D67, 0xEC8726CB, 0x702138A4, 0xD3B7973B] =
     [0x61626380, 0x00000000, 0x00000000, 0x00000000, 0x00000000, 0x00000000, 0x00000000, 0x00000000,
     0x00000000, 0x00000000, 0x00000000, 0x00000000, 0x00000000, 0x00000000, 0x00000000, 0x00000018,
     0x61626380, 0x000F0000, 0x7DA86405, 0x600003C6, 0x3E9D7B78, 0x0183FC00, 0x12DCBFDB, 0xE2E2C38E,
     0xC8215C1A, 0xB73679A2, 0xE5BC3909, 0x32663C5B, 0x9D209D67, 0xEC8726CB, 0x702138A4, 0xD3B7973B,
     0x93F5997F, 0x3B68BA73, 0xAFF4FFC1, 0xF10A5C62, 0x0A8B3996, 0x72AF830A, 0x9409E33E, 0x24641522,
     0x9F47BF94, 0xF0A64F5A, 0x3E246A79, 0x27333BA3, 0x0C4763F2, 0x840ABF27, 0x7A290D5D, 0x065C43DA]"
  by (simp add: schedule_numeral sigma0_def sigma1_def rotr_def)

lemma schedule_abc_c:
  "schedule 16
     [0x61626380, 0x00000000, 0x00000000, 0x00000000, 0x00000000, 0x00000000, 0x00000000, 0x00000000,
     0x00000000, 0x00000000, 0x00000000, 0x00000000, 0x00000000, 0x00000000, 0x00000000, 0x00000018,
     0x61626380, 0x000F0000, 0x7DA86405, 0x600003C6, 0x3E9D7B78, 0x0183FC00, 0x12DCBFDB, 0xE2E2C38E,
     0xC8215C1A, 0xB73679A2, 0xE5BC3909, 0x32663C5B, 0x9D209D67, 0xEC8726CB, 0x702138A4, 0xD3B7973B,
     0x93F5997F, 0x3B68BA73, 0xAFF4FFC1, 0xF10A5C62, 0x0A8B3996, 0x72AF830A, 0x9409E33E, 0x24641522,
     0x9F47BF94, 0xF0A64F5A, 0x3E246A79, 0x27333BA3, 0x0C4763F2, 0x840ABF27, 0x7A290D5D, 0x065C43DA] =
     [0x61626380, 0x00000000, 0x00000000, 0x00000000, 0x00000000, 0x00000000, 0x00000000, 0x00000000,
     0x00000000, 0x00000000, 0x00000000, 0x00000000, 0x00000000, 0x00000000, 0x00000000, 0x00000018,
     0x61626380, 0x000F0000, 0x7DA86405, 0x600003C6, 0x3E9D7B78, 0x0183FC00, 0x12DCBFDB, 0xE2E2C38E,
     0xC8215C1A, 0xB73679A2, 0xE5BC3909, 0x32663C5B, 0x9D209D67, 0xEC8726CB, 0x702138A4, 0xD3B7973B,
     0x93F5997F, 0x3B68BA73, 0xAFF4FFC1, 0xF10A5C62, 0x0A8B3996, 0x72AF830A, 0x9409E33E, 0x24641522,
     0x9F47BF94, 0xF0A64F5A, 0x3E246A79, 0x27333BA3, 0x0C4763F2, 0x840ABF27, 0x7A290D5D, 0x065C43DA,
     0xFB3E89CB, 0xCC7617DB, 0xB9E66C34, 0xA9993667, 0x84BADEDD, 0xC21462BC, 0x1487472C, 0xB20F7A99,
     0xEF57B9CD, 0xEBE6B238, 0x9FE3095E, 0x78BC8D4B, 0xA43FCF15, 0x668B2FF8, 0xEEABA2CC, 0x12B1EDEB]"
  by (simp add: schedule_numeral sigma0_def sigma1_def rotr_def)

lemma schedule_abc:
  "schedule 48
     [0x61626380, 0x00000000, 0x00000000, 0x00000000, 0x00000000, 0x00000000, 0x00000000, 0x00000000,
     0x00000000, 0x00000000, 0x00000000, 0x00000000, 0x00000000, 0x00000000, 0x00000000, 0x00000018] =
     [0x61626380, 0x00000000, 0x00000000, 0x00000000, 0x00000000, 0x00000000, 0x00000000, 0x00000000,
     0x00000000, 0x00000000, 0x00000000, 0x00000000, 0x00000000, 0x00000000, 0x00000000, 0x00000018,
     0x61626380, 0x000F0000, 0x7DA86405, 0x600003C6, 0x3E9D7B78, 0x0183FC00, 0x12DCBFDB, 0xE2E2C38E,
     0xC8215C1A, 0xB73679A2, 0xE5BC3909, 0x32663C5B, 0x9D209D67, 0xEC8726CB, 0x702138A4, 0xD3B7973B,
     0x93F5997F, 0x3B68BA73, 0xAFF4FFC1, 0xF10A5C62, 0x0A8B3996, 0x72AF830A, 0x9409E33E, 0x24641522,
     0x9F47BF94, 0xF0A64F5A, 0x3E246A79, 0x27333BA3, 0x0C4763F2, 0x840ABF27, 0x7A290D5D, 0x065C43DA,
     0xFB3E89CB, 0xCC7617DB, 0xB9E66C34, 0xA9993667, 0x84BADEDD, 0xC21462BC, 0x1487472C, 0xB20F7A99,
     0xEF57B9CD, 0xEBE6B238, 0x9FE3095E, 0x78BC8D4B, 0xA43FCF15, 0x668B2FF8, 0xEEABA2CC, 0x12B1EDEB]"
proof -
  have "schedule 48
          [0x61626380, 0x00000000, 0x00000000, 0x00000000, 0x00000000, 0x00000000, 0x00000000, 0x00000000,
          0x00000000, 0x00000000, 0x00000000, 0x00000000, 0x00000000, 0x00000000, 0x00000000, 0x00000018]
        = schedule (16 + 16 + 16)
          [0x61626380, 0x00000000, 0x00000000, 0x00000000, 0x00000000, 0x00000000, 0x00000000, 0x00000000,
          0x00000000, 0x00000000, 0x00000000, 0x00000000, 0x00000000, 0x00000000, 0x00000000, 0x00000018]"
    by simp
  then show ?thesis
    by (simp only: schedule_add schedule_abc_a schedule_abc_b schedule_abc_c)
qed

lemma rounds_abc_a:
  "foldl round256
     [0x6A09E667, 0xBB67AE85, 0x3C6EF372, 0xA54FF53A, 0x510E527F, 0x9B05688C, 0x1F83D9AB, 0x5BE0CD19]
     [(0x428A2F98, 0x61626380), (0x71374491, 0x00000000), (0xB5C0FBCF, 0x00000000), (0xE9B5DBA5, 0x00000000),
      (0x3956C25B, 0x00000000), (0x59F111F1, 0x00000000), (0x923F82A4, 0x00000000), (0xAB1C5ED5, 0x00000000)] =
     [0x85A07B5F, 0xE5030380, 0x2B4209F5, 0x04409A6A, 0x0C657A79, 0x9B27A401, 0x714260AD, 0x43ADA245]"
  by (simp add: round256_unfold Sigma0_def Sigma1_def Ch_def Maj_def rotr_def
      del: round256.simps)

lemma rounds_abc_b:
  "foldl round256
     [0x85A07B5F, 0xE5030380, 0x2B4209F5, 0x04409A6A, 0x0C657A79, 0x9B27A401, 0x714260AD, 0x43ADA245]
     [(0xD807AA98, 0x00000000), (0x12835B01, 0x00000000), (0x243185BE, 0x00000000), (0x550C7DC3, 0x00000000),
      (0x72BE5D74, 0x00000000), (0x80DEB1FE, 0x00000000), (0x9BDC06A7, 0x00000000), (0xC19BF174, 0x00000018)] =
     [0xB0FA238E, 0xC0645FDE, 0xD932EB16, 0x87912990, 0x07590DCD, 0x0B92F20C, 0x745A48DE, 0x1E578218]"
  by (simp add: round256_unfold Sigma0_def Sigma1_def Ch_def Maj_def rotr_def
      del: round256.simps)

lemma rounds_abc_c:
  "foldl round256
     [0xB0FA238E, 0xC0645FDE, 0xD932EB16, 0x87912990, 0x07590DCD, 0x0B92F20C, 0x745A48DE, 0x1E578218]
     [(0xE49B69C1, 0x61626380), (0xEFBE4786, 0x000F0000), (0x0FC19DC6, 0x7DA86405), (0x240CA1CC, 0x600003C6),
      (0x2DE92C6F, 0x3E9D7B78), (0x4A7484AA, 0x0183FC00), (0x5CB0A9DC, 0x12DCBFDB), (0x76F988DA, 0xE2E2C38E)] =
     [0xC5D53D8D, 0xA7A3623F, 0xC2606D6D, 0x9DC68B63, 0xAA47C347, 0x49F5114A, 0xE1257970, 0x8ADA8930]"
  by (simp add: round256_unfold Sigma0_def Sigma1_def Ch_def Maj_def rotr_def
      del: round256.simps)

lemma rounds_abc_d:
  "foldl round256
     [0xC5D53D8D, 0xA7A3623F, 0xC2606D6D, 0x9DC68B63, 0xAA47C347, 0x49F5114A, 0xE1257970, 0x8ADA8930]
     [(0x983E5152, 0xC8215C1A), (0xA831C66D, 0xB73679A2), (0xB00327C8, 0xE5BC3909), (0xBF597FC7, 0x32663C5B),
      (0xC6E00BF3, 0x9D209D67), (0xD5A79147, 0xEC8726CB), (0x06CA6351, 0x702138A4), (0x14292967, 0xD3B7973B)] =
     [0x73B33BF5, 0xEA992A22, 0xA0060B30, 0x363482C9, 0xBA591112, 0x0109AB3A, 0xADE79437, 0x6112A3B7]"
  by (simp add: round256_unfold Sigma0_def Sigma1_def Ch_def Maj_def rotr_def
      del: round256.simps)

lemma rounds_abc_e:
  "foldl round256
     [0x73B33BF5, 0xEA992A22, 0xA0060B30, 0x363482C9, 0xBA591112, 0x0109AB3A, 0xADE79437, 0x6112A3B7]
     [(0x27B70A85, 0x93F5997F), (0x2E1B2138, 0x3B68BA73), (0x4D2C6DFC, 0xAFF4FFC1), (0x53380D13, 0xF10A5C62),
      (0x650A7354, 0x0A8B3996), (0x766A0ABB, 0x72AF830A), (0x81C2C92E, 0x9409E33E), (0x92722C85, 0x24641522)] =
     [0x79EA687A, 0x6DC57A8A, 0x34DF1604, 0x41A65CB1, 0x1EFBC0A0, 0xF0781BC8, 0xA507A53D, 0x0772A26B]"
  by (simp add: round256_unfold Sigma0_def Sigma1_def Ch_def Maj_def rotr_def
      del: round256.simps)

lemma rounds_abc_f:
  "foldl round256
     [0x79EA687A, 0x6DC57A8A, 0x34DF1604, 0x41A65CB1, 0x1EFBC0A0, 0xF0781BC8, 0xA507A53D, 0x0772A26B]
     [(0xA2BFE8A1, 0x9F47BF94), (0xA81A664B, 0xF0A64F5A), (0xC24B8B70, 0x3E246A79), (0xC76C51A3, 0x27333BA3),
      (0xD192E819, 0x0C4763F2), (0xD6990624, 0x840ABF27), (0xF40E3585, 0x7A290D5D), (0x106AA070, 0x065C43DA)] =
     [0x4172328D, 0xA14C14B0, 0x72AB4B91, 0x26628815, 0xFECF0BC6, 0xD57B94A9, 0xB7755DA1, 0xA80F11F0]"
  by (simp add: round256_unfold Sigma0_def Sigma1_def Ch_def Maj_def rotr_def
      del: round256.simps)

lemma rounds_abc_g:
  "foldl round256
     [0x4172328D, 0xA14C14B0, 0x72AB4B91, 0x26628815, 0xFECF0BC6, 0xD57B94A9, 0xB7755DA1, 0xA80F11F0]
     [(0x19A4C116, 0xFB3E89CB), (0x1E376C08, 0xCC7617DB), (0x2748774C, 0xB9E66C34), (0x34B0BCB5, 0xA9993667),
      (0x391C0CB3, 0x84BADEDD), (0x4ED8AA4A, 0xC21462BC), (0x5B9CCA4F, 0x1487472C), (0x682E6FF3, 0xB20F7A99)] =
     [0x38CC9913, 0x3EC45CDB, 0xF5702FDB, 0x101FD28F, 0x54CB266B, 0xE50E1B4F, 0x9F4787C3, 0x529E7D00]"
  by (simp add: round256_unfold Sigma0_def Sigma1_def Ch_def Maj_def rotr_def
      del: round256.simps)

lemma rounds_abc_h:
  "foldl round256
     [0x38CC9913, 0x3EC45CDB, 0xF5702FDB, 0x101FD28F, 0x54CB266B, 0xE50E1B4F, 0x9F4787C3, 0x529E7D00]
     [(0x748F82EE, 0xEF57B9CD), (0x78A5636F, 0xEBE6B238), (0x84C87814, 0x9FE3095E), (0x8CC70208, 0x78BC8D4B),
      (0x90BEFFFA, 0xA43FCF15), (0xA4506CEB, 0x668B2FF8), (0xBEF9A3F7, 0xEEABA2CC), (0xC67178F2, 0x12B1EDEB)] =
     [0x506E3058, 0xD39A2165, 0x04D24D6C, 0xB85E2CE9, 0x5EF50F24, 0xFB121210, 0x948D25B6, 0x961F4894]"
  by (simp add: round256_unfold Sigma0_def Sigma1_def Ch_def Maj_def rotr_def
      del: round256.simps)

lemma rounds_abc:
  "foldl round256
     [0x6A09E667, 0xBB67AE85, 0x3C6EF372, 0xA54FF53A, 0x510E527F, 0x9B05688C, 0x1F83D9AB, 0x5BE0CD19]
     (zip K256
        [0x61626380, 0x00000000, 0x00000000, 0x00000000, 0x00000000, 0x00000000, 0x00000000, 0x00000000,
        0x00000000, 0x00000000, 0x00000000, 0x00000000, 0x00000000, 0x00000000, 0x00000000, 0x00000018,
        0x61626380, 0x000F0000, 0x7DA86405, 0x600003C6, 0x3E9D7B78, 0x0183FC00, 0x12DCBFDB, 0xE2E2C38E,
        0xC8215C1A, 0xB73679A2, 0xE5BC3909, 0x32663C5B, 0x9D209D67, 0xEC8726CB, 0x702138A4, 0xD3B7973B,
        0x93F5997F, 0x3B68BA73, 0xAFF4FFC1, 0xF10A5C62, 0x0A8B3996, 0x72AF830A, 0x9409E33E, 0x24641522,
        0x9F47BF94, 0xF0A64F5A, 0x3E246A79, 0x27333BA3, 0x0C4763F2, 0x840ABF27, 0x7A290D5D, 0x065C43DA,
        0xFB3E89CB, 0xCC7617DB, 0xB9E66C34, 0xA9993667, 0x84BADEDD, 0xC21462BC, 0x1487472C, 0xB20F7A99,
        0xEF57B9CD, 0xEBE6B238, 0x9FE3095E, 0x78BC8D4B, 0xA43FCF15, 0x668B2FF8, 0xEEABA2CC, 0x12B1EDEB]) =
     [0x506E3058, 0xD39A2165, 0x04D24D6C, 0xB85E2CE9, 0x5EF50F24, 0xFB121210, 0x948D25B6, 0x961F4894]"
proof -
  have "zip K256
          ([0x61626380, 0x00000000, 0x00000000, 0x00000000, 0x00000000, 0x00000000, 0x00000000, 0x00000000,
           0x00000000, 0x00000000, 0x00000000, 0x00000000, 0x00000000, 0x00000000, 0x00000000, 0x00000018,
           0x61626380, 0x000F0000, 0x7DA86405, 0x600003C6, 0x3E9D7B78, 0x0183FC00, 0x12DCBFDB, 0xE2E2C38E,
           0xC8215C1A, 0xB73679A2, 0xE5BC3909, 0x32663C5B, 0x9D209D67, 0xEC8726CB, 0x702138A4, 0xD3B7973B,
           0x93F5997F, 0x3B68BA73, 0xAFF4FFC1, 0xF10A5C62, 0x0A8B3996, 0x72AF830A, 0x9409E33E, 0x24641522,
           0x9F47BF94, 0xF0A64F5A, 0x3E246A79, 0x27333BA3, 0x0C4763F2, 0x840ABF27, 0x7A290D5D, 0x065C43DA,
           0xFB3E89CB, 0xCC7617DB, 0xB9E66C34, 0xA9993667, 0x84BADEDD, 0xC21462BC, 0x1487472C, 0xB20F7A99,
           0xEF57B9CD, 0xEBE6B238, 0x9FE3095E, 0x78BC8D4B, 0xA43FCF15, 0x668B2FF8, 0xEEABA2CC, 0x12B1EDEB] :: u32 list) =
       [(0x428A2F98, 0x61626380), (0x71374491, 0x00000000), (0xB5C0FBCF, 0x00000000), (0xE9B5DBA5, 0x00000000),
        (0x3956C25B, 0x00000000), (0x59F111F1, 0x00000000), (0x923F82A4, 0x00000000), (0xAB1C5ED5, 0x00000000)] @
       [(0xD807AA98, 0x00000000), (0x12835B01, 0x00000000), (0x243185BE, 0x00000000), (0x550C7DC3, 0x00000000),
        (0x72BE5D74, 0x00000000), (0x80DEB1FE, 0x00000000), (0x9BDC06A7, 0x00000000), (0xC19BF174, 0x00000018)] @
       [(0xE49B69C1, 0x61626380), (0xEFBE4786, 0x000F0000), (0x0FC19DC6, 0x7DA86405), (0x240CA1CC, 0x600003C6),
        (0x2DE92C6F, 0x3E9D7B78), (0x4A7484AA, 0x0183FC00), (0x5CB0A9DC, 0x12DCBFDB), (0x76F988DA, 0xE2E2C38E)] @
       [(0x983E5152, 0xC8215C1A), (0xA831C66D, 0xB73679A2), (0xB00327C8, 0xE5BC3909), (0xBF597FC7, 0x32663C5B),
        (0xC6E00BF3, 0x9D209D67), (0xD5A79147, 0xEC8726CB), (0x06CA6351, 0x702138A4), (0x14292967, 0xD3B7973B)] @
       [(0x27B70A85, 0x93F5997F), (0x2E1B2138, 0x3B68BA73), (0x4D2C6DFC, 0xAFF4FFC1), (0x53380D13, 0xF10A5C62),
        (0x650A7354, 0x0A8B3996), (0x766A0ABB, 0x72AF830A), (0x81C2C92E, 0x9409E33E), (0x92722C85, 0x24641522)] @
       [(0xA2BFE8A1, 0x9F47BF94), (0xA81A664B, 0xF0A64F5A), (0xC24B8B70, 0x3E246A79), (0xC76C51A3, 0x27333BA3),
        (0xD192E819, 0x0C4763F2), (0xD6990624, 0x840ABF27), (0xF40E3585, 0x7A290D5D), (0x106AA070, 0x065C43DA)] @
       [(0x19A4C116, 0xFB3E89CB), (0x1E376C08, 0xCC7617DB), (0x2748774C, 0xB9E66C34), (0x34B0BCB5, 0xA9993667),
        (0x391C0CB3, 0x84BADEDD), (0x4ED8AA4A, 0xC21462BC), (0x5B9CCA4F, 0x1487472C), (0x682E6FF3, 0xB20F7A99)] @
       [(0x748F82EE, 0xEF57B9CD), (0x78A5636F, 0xEBE6B238), (0x84C87814, 0x9FE3095E), (0x8CC70208, 0x78BC8D4B),
        (0x90BEFFFA, 0xA43FCF15), (0xA4506CEB, 0x668B2FF8), (0xBEF9A3F7, 0xEEABA2CC), (0xC67178F2, 0x12B1EDEB)]"
    by (simp add: K256_def)
  then show ?thesis
    by (simp only: foldl_append rounds_abc_a rounds_abc_b rounds_abc_c rounds_abc_d rounds_abc_e rounds_abc_f rounds_abc_g rounds_abc_h)
qed

lemma compress_abc:
  "compress
     [0x6A09E667, 0xBB67AE85, 0x3C6EF372, 0xA54FF53A, 0x510E527F, 0x9B05688C, 0x1F83D9AB, 0x5BE0CD19]
     [0x61, 0x62, 0x63, 0x80, 0x00, 0x00, 0x00, 0x00, 0x00, 0x00, 0x00, 0x00, 0x00, 0x00, 0x00, 0x00,
     0x00, 0x00, 0x00, 0x00, 0x00, 0x00, 0x00, 0x00, 0x00, 0x00, 0x00, 0x00, 0x00, 0x00, 0x00, 0x00,
     0x00, 0x00, 0x00, 0x00, 0x00, 0x00, 0x00, 0x00, 0x00, 0x00, 0x00, 0x00, 0x00, 0x00, 0x00, 0x00,
     0x00, 0x00, 0x00, 0x00, 0x00, 0x00, 0x00, 0x00, 0x00, 0x00, 0x00, 0x00, 0x00, 0x00, 0x00, 0x18] =
     [0xBA7816BF, 0x8F01CFEA, 0x414140DE, 0x5DAE2223, 0xB00361A3, 0x96177A9C, 0xB410FF61, 0xF20015AD]"
  by (simp add: compress_def schedule_abc rounds_abc del: be_words.simps)
    (simp only: be_words_abc schedule_abc rounds_abc, simp)

lemma sha256_abc:
  "sha256 (map of_char ''abc'') =
     [0xBA, 0x78, 0x16, 0xBF, 0x8F, 0x01, 0xCF, 0xEA, 0x41, 0x41, 0x40, 0xDE, 0x5D, 0xAE, 0x22, 0x23,
     0xB0, 0x03, 0x61, 0xA3, 0x96, 0x17, 0x7A, 0x9C, 0xB4, 0x10, 0xFF, 0x61, 0xF2, 0x00, 0x15, 0xAD]"
proof -
  have "foldl compress H256 (blocks (pad (map of_char ''abc''))) =
          [0xBA7816BF, 0x8F01CFEA, 0x414140DE, 0x5DAE2223, 0xB00361A3, 0x96177A9C, 0xB410FF61, 0xF20015AD]"
    by (simp only: pad_abc blocks_abc foldl.simps H256_def compress_abc)
  then show ?thesis
    by (simp only: sha256_def) (simp add: word_bytes_def)
qed

lemma checksum_abc:
  "checksum (map of_char ''abc'') = ''ba7816bf8f01cfea414140de5dae2223b00361a396177a9cb410ff61f20015ad''"
  by (simp only: checksum_def sha256_abc) (simp add: hexdigest_def hexdigit_def)

lemma pad_two_blocks:
  "pad (map of_char ''abcdbcdecdefdefgefghfghighijhijkijkljklmklmnlmnomnopnopq'') =
     [0x61, 0x62, 0x63, 0x64, 0x62, 0x63, 0x64, 0x65, 0x63, 0x64, 0x65, 0x66, 0x64, 0x65, 0x66, 0x67,
     0x65, 0x66, 0x67, 0x68, 0x66, 0x67, 0x68, 0x69, 0x67, 0x68, 0x69, 0x6A, 0x68, 0x69, 0x6A, 0x6B,
     0x69, 0x6A, 0x6B, 0x6C, 0x6A, 0x6B, 0x6C, 0x6D, 0x6B, 0x6C, 0x6D, 0x6E, 0x6C, 0x6D, 0x6E, 0x6F,
     0x6D, 0x6E, 0x6F, 0x70, 0x6E, 0x6F, 0x70, 0x71, 0x80, 0x00, 0x00, 0x00, 0x00, 0x00, 0x00, 0x00,
     0x00, 0x00, 0x00, 0x00, 0x00, 0x00, 0x00, 0x00, 0x00, 0x00, 0x00, 0x00, 0x00, 0x00, 0x00, 0x00,
     0x00, 0x00, 0x00, 0x00, 0x00, 0x00, 0x00, 0x00, 0x00, 0x00, 0x00, 0x00, 0x00, 0x00, 0x00, 0x00,
     0x00, 0x00, 0x00, 0x00, 0x00, 0x00, 0x00, 0x00, 0x00, 0x00, 0x00, 0x00, 0x00, 0x00, 0x00, 0x00,
     0x00, 0x00, 0x00, 0x00, 0x00, 0x00, 0x00, 0x00, 0x00, 0x00, 0x00, 0x00, 0x00, 0x00, 0x01, 0xC0]"
  by (simp add: pad_def be_bytes_def upt_rec replicate_numeral)

lemma blocks_two_blocks:
  "blocks
     [0x61, 0x62, 0x63, 0x64, 0x62, 0x63, 0x64, 0x65, 0x63, 0x64, 0x65, 0x66, 0x64, 0x65, 0x66, 0x67,
     0x65, 0x66, 0x67, 0x68, 0x66, 0x67, 0x68, 0x69, 0x67, 0x68, 0x69, 0x6A, 0x68, 0x69, 0x6A, 0x6B,
     0x69, 0x6A, 0x6B, 0x6C, 0x6A, 0x6B, 0x6C, 0x6D, 0x6B, 0x6C, 0x6D, 0x6E, 0x6C, 0x6D, 0x6E, 0x6F,
     0x6D, 0x6E, 0x6F, 0x70, 0x6E, 0x6F, 0x70, 0x71, 0x80, 0x00, 0x00, 0x00, 0x00, 0x00, 0x00, 0x00,
     0x00, 0x00, 0x00, 0x00, 0x00, 0x00, 0x00, 0x00, 0x00, 0x00, 0x00, 0x00, 0x00, 0x00, 0x00, 0x00,
     0x00, 0x00, 0x00, 0x00, 0x00, 0x00, 0x00, 0x00, 0x00, 0x00, 0x00, 0x00, 0x00, 0x00, 0x00, 0x00,
     0x00, 0x00, 0x00, 0x00, 0x00, 0x00, 0x00, 0x00, 0x00, 0x00, 0x00, 0x00, 0x00, 0x00, 0x00, 0x00,
     0x00, 0x00, 0x00, 0x00, 0x00, 0x00, 0x00, 0x00, 0x00, 0x00, 0x00, 0x00, 0x00, 0x00, 0x01, 0xC0] =
     [[0x61, 0x62, 0x63, 0x64, 0x62, 0x63, 0x64, 0x65, 0x63, 0x64, 0x65, 0x66, 0x64, 0x65, 0x66, 0x67,
       0x65, 0x66, 0x67, 0x68, 0x66, 0x67, 0x68, 0x69, 0x67, 0x68, 0x69, 0x6A, 0x68, 0x69, 0x6A, 0x6B,
       0x69, 0x6A, 0x6B, 0x6C, 0x6A, 0x6B, 0x6C, 0x6D, 0x6B, 0x6C, 0x6D, 0x6E, 0x6C, 0x6D, 0x6E, 0x6F,
       0x6D, 0x6E, 0x6F, 0x70, 0x6E, 0x6F, 0x70, 0x71, 0x80, 0x00, 0x00, 0x00, 0x00, 0x00, 0x00, 0x00],
      [0x00, 0x00, 0x00, 0x00, 0x00, 0x00, 0x00, 0x00, 0x00, 0x00, 0x00, 0x00, 0x00, 0x00, 0x00, 0x00,
       0x00, 0x00, 0x00, 0x00, 0x00, 0x00, 0x00, 0x00, 0x00, 0x00, 0x00, 0x00, 0x00, 0x00, 0x00, 0x00,
       0x00, 0x00, 0x00, 0x00, 0x00, 0x00, 0x00, 0x00, 0x00, 0x00, 0x00, 0x00, 0x00, 0x00, 0x00, 0x00,
       0x00, 0x00, 0x00, 0x00, 0x00, 0x00, 0x00, 0x00, 0x00, 0x00, 0x00, 0x00, 0x00, 0x00, 0x01, 0xC0]]"
  by simp

lemma be_words_two_blocks_1:
  "be_words
     [0x61, 0x62, 0x63, 0x64, 0x62, 0x63, 0x64, 0x65, 0x63, 0x64, 0x65, 0x66, 0x64, 0x65, 0x66, 0x67,
     0x65, 0x66, 0x67, 0x68, 0x66, 0x67, 0x68, 0x69, 0x67, 0x68, 0x69, 0x6A, 0x68, 0x69, 0x6A, 0x6B,
     0x69, 0x6A, 0x6B, 0x6C, 0x6A, 0x6B, 0x6C, 0x6D, 0x6B, 0x6C, 0x6D, 0x6E, 0x6C, 0x6D, 0x6E, 0x6F,
     0x6D, 0x6E, 0x6F, 0x70, 0x6E, 0x6F, 0x70, 0x71, 0x80, 0x00, 0x00, 0x00, 0x00, 0x00, 0x00, 0x00] =
     [0x61626364, 0x62636465, 0x63646566, 0x64656667, 0x65666768, 0x66676869, 0x6768696A, 0x68696A6B,
     0x696A6B6C, 0x6A6B6C6D, 0x6B6C6D6E, 0x6C6D6E6F, 0x6D6E6F70, 0x6E6F7071, 0x80000000, 0x00000000]"
  by simp

lemma schedule_two_blocks_1_a:
  "schedule 16
     [0x61626364, 0x62636465, 0x63646566, 0x64656667, 0x65666768, 0x66676869, 0x6768696A, 0x68696A6B,
     0x696A6B6C, 0x6A6B6C6D, 0x6B6C6D6E, 0x6C6D6E6F, 0x6D6E6F70, 0x6E6F7071, 0x80000000, 0x00000000] =
     [0x61626364, 0x62636465, 0x63646566, 0x64656667, 0x65666768, 0x66676869, 0x6768696A, 0x68696A6B,
     0x696A6B6C, 0x6A6B6C6D, 0x6B6C6D6E, 0x6C6D6E6F, 0x6D6E6F70, 0x6E6F7071, 0x80000000, 0x00000000,
     0xEB8012AD, 0xA7C3AE92, 0x76E93BA2, 0xBA42E743, 0x92A92204, 0xD847E75E, 0x9E160036, 0xB280A7CB,
     0xDDEB1516, 0xF36586F4, 0x969CD048, 0xE959D99D, 0x6ACCC0EC, 0xF54CB098, 0x2AF1B2DA, 0xEE59C4C9]"
  by (simp add: schedule_numeral sigma0_def sigma1_def rotr_def)

lemma schedule_two_blocks_1_b:
  "schedule 16
     [0x61626364, 0x62636465, 0x63646566, 0x64656667, 0x65666768, 0x66676869, 0x6768696A, 0x68696A6B,
     0x696A6B6C, 0x6A6B6C6D, 0x6B6C6D6E, 0x6C6D6E6F, 0x6D6E6F70, 0x6E6F7071, 0x80000000, 0x00000000,
     0xEB8012AD, 0xA7C3AE92, 0x76E93BA2, 0xBA42E743, 0x92A92204, 0xD847E75E, 0x9E160036, 0xB280A7CB,
     0xDDEB1516, 0xF36586F4, 0x969CD048, 0xE959D99D, 0x6ACCC0EC, 0xF54CB098, 0x2AF1B2DA, 0xEE59C4C9] =
     [0x61626364, 0x62636465, 0x63646566, 0x64656667, 0x65666768, 0x66676869, 0x6768696A, 0x68696A6B,
     0x696A6B6C, 0x6A6B6C6D, 0x6B6C6D6E, 0x6C6D6E6F, 0x6D6E6F70, 0x6E6F7071, 0x80000000, 0x00000000,
     0xEB8012AD, 0xA7C3AE92, 0x76E93BA2, 0xBA42E743, 0x92A92204, 0xD847E75E, 0x9E160036, 0xB280A7CB,
     0xDDEB1516, 0xF36586F4, 0x969CD048, 0xE959D99D, 0x6ACCC0EC, 0xF54CB098, 0x2AF1B2DA, 0xEE59C4C9,
     0xA835E16A, 0x1DFF4429, 0xD6E15959, 0xC397CD6E, 0x6F1801CA, 0x21574205, 0x35FF7A84, 0x9743EE78,
     0xE44183E7, 0x0D09F00D, 0x9C89AF54, 0x042D5BEF, 0x71F134D0, 0x0F94F463, 0x7E49DC63, 0x6F65C997]"
  by (simp add: schedule_numeral sigma0_def sigma1_def rotr_def)

lemma schedule_two_blocks_1_c:
  "schedule 16
     [0x61626364, 0x62636465, 0x63646566, 0x64656667, 0x65666768, 0x66676869, 0x6768696A, 0x68696A6B,
     0x696A6B6C, 0x6A6B6C6D, 0x6B6C6D6E, 0x6C6D6E6F, 0x6D6E6F70, 0x6E6F7071, 0x80000000, 0x00000000,
     0xEB8012AD, 0xA7C3AE92, 0x76E93BA2, 0xBA42E743, 0x92A92204, 0xD847E75E, 0x9E160036, 0xB280A7CB,
     0xDDEB1516, 0xF36586F4, 0x969CD048, 0xE959D99D, 0x6ACCC0EC, 0xF54CB098, 0x2AF1B2DA, 0xEE59C4C9,
     0xA835E16A, 0x1DFF4429, 0xD6E15959, 0xC397CD6E, 0x6F1801CA, 0x21574205, 0x35FF7A84, 0x9743EE78,
     0xE44183E7, 0x0D09F00D, 0x9C89AF54, 0x042D5BEF, 0x71F134D0, 0x0F94F463, 0x7E49DC63, 0x6F65C997] =
     [0x61626364, 0x62636465, 0x63646566, 0x64656667, 0x65666768, 0x66676869, 0x6768696A, 0x68696A6B,
     0x696A6B6C, 0x6A6B6C6D, 0x6B6C6D6E, 0x6C6D6E6F, 0x6D6E6F70, 0x6E6F7071, 0x80000000, 0x00000000,
     0xEB8012AD, 0xA7C3AE92, 0x76E93BA2, 0xBA42E743, 0x92A92204, 0xD847E75E, 0x9E160036, 0xB280A7CB,
     0xDDEB1516, 0xF36586F4, 0x969CD048, 0xE959D99D, 0x6ACCC0EC, 0xF54CB098, 0x2AF1B2DA, 0xEE59C4C9,
     0xA835E16A, 0x1DFF4429, 0xD6E15959, 0xC397CD6E, 0x6F1801CA, 0x21574205, 0x35FF7A84, 0x9743EE78,
     0xE44183E7, 0x0D09F00D, 0x9C89AF54, 0x042D5BEF, 0x71F134D0, 0x0F94F463, 0x7E49DC63, 0x6F65C997,
     0x0B706583, 0x179312CA, 0x503054E9, 0xBA125C39, 0x7E9392C9, 0xD5CBAA1E, 0x78E0585D, 0xF6E7611C,
     0x8AC830CE, 0x8B47A303, 0xFD6E627F, 0x8C6E2C6A, 0x4001ADF1, 0x1A3DD097, 0xA9DF6F62, 0x6AA60A39]"
  by (simp add: schedule_numeral sigma0_def sigma1_def rotr_def)

lemma schedule_two_blocks_1:
  "schedule 48
     [0x61626364, 0x62636465, 0x63646566, 0x64656667, 0x65666768, 0x66676869, 0x6768696A, 0x68696A6B,
     0x696A6B6C, 0x6A6B6C6D, 0x6B6C6D6E, 0x6C6D6E6F, 0x6D6E6F70, 0x6E6F7071, 0x80000000, 0x00000000] =
     [0x61626364, 0x62636465, 0x63646566, 0x64656667, 0x65666768, 0x66676869, 0x6768696A, 0x68696A6B,
     0x696A6B6C, 0x6A6B6C6D, 0x6B6C6D6E, 0x6C6D6E6F, 0x6D6E6F70, 0x6E6F7071, 0x80000000, 0x00000000,
     0xEB8012AD, 0xA7C3AE92, 0x76E93BA2, 0xBA42E743, 0x92A92204, 0xD847E75E, 0x9E160036, 0xB280A7CB,
     0xDDEB1516, 0xF36586F4, 0x969CD048, 0xE959D99D, 0x6ACCC0EC, 0xF54CB098, 0x2AF1B2DA, 0xEE59C4C9,
     0xA835E16A, 0x1DFF4429, 0xD6E15959, 0xC397CD6E, 0x6F1801CA, 0x21574205, 0x35FF7A84, 0x9743EE78,
     0xE44183E7, 0x0D09F00D, 0x9C89AF54, 0x042D5BEF, 0x71F134D0, 0x0F94F463, 0x7E49DC63, 0x6F65C997,
     0x0B706583, 0x179312CA, 0x503054E9, 0xBA125C39, 0x7E9392C9, 0xD5CBAA1E, 0x78E0585D, 0xF6E7611C,
     0x8AC830CE, 0x8B47A303, 0xFD6E627F, 0x8C6E2C6A, 0x4001ADF1, 0x1A3DD097, 0xA9DF6F62, 0x6AA60A39]"
proof -
  have "schedule 48
          [0x61626364, 0x62636465, 0x63646566, 0x64656667, 0x65666768, 0x66676869, 0x6768696A, 0x68696A6B,
          0x696A6B6C, 0x6A6B6C6D, 0x6B6C6D6E, 0x6C6D6E6F, 0x6D6E6F70, 0x6E6F7071, 0x80000000, 0x00000000]
        = schedule (16 + 16 + 16)
          [0x61626364, 0x62636465, 0x63646566, 0x64656667, 0x65666768, 0x66676869, 0x6768696A, 0x68696A6B,
          0x696A6B6C, 0x6A6B6C6D, 0x6B6C6D6E, 0x6C6D6E6F, 0x6D6E6F70, 0x6E6F7071, 0x80000000, 0x00000000]"
    by simp
  then show ?thesis
    by (simp only: schedule_add schedule_two_blocks_1_a schedule_two_blocks_1_b schedule_two_blocks_1_c)
qed

lemma rounds_two_blocks_1_a:
  "foldl round256
     [0x6A09E667, 0xBB67AE85, 0x3C6EF372, 0xA54FF53A, 0x510E527F, 0x9B05688C, 0x1F83D9AB, 0x5BE0CD19]
     [(0x428A2F98, 0x61626364), (0x71374491, 0x62636465), (0xB5C0FBCF, 0x63646566), (0xE9B5DBA5, 0x64656667),
      (0x3956C25B, 0x65666768), (0x59F111F1, 0x66676869), (0x923F82A4, 0x6768696A), (0xAB1C5ED5, 0x68696A6B)] =
     [0xD237E6DB, 0x485835B7, 0x55C8EF48, 0xF921C212, 0xA401D211, 0x39A5B2CA, 0x7FF91C94, 0x05C4F88A]"
  by (simp add: round256_unfold Sigma0_def Sigma1_def Ch_def Maj_def rotr_def
      del: round256.simps)

lemma rounds_two_blocks_1_b:
  "foldl round256
     [0xD237E6DB, 0x485835B7, 0x55C8EF48, 0xF921C212, 0xA401D211, 0x39A5B2CA, 0x7FF91C94, 0x05C4F88A]
     [(0xD807AA98, 0x696A6B6C), (0x12835B01, 0x6A6B6C6D), (0x243185BE, 0x6B6C6D6E), (0x550C7DC3, 0x6C6D6E6F),
      (0x72BE5D74, 0x6D6E6F70), (0x80DEB1FE, 0x6E6F7071), (0x9BDC06A7, 0x80000000), (0xC19BF174, 0x00000000)] =
     [0xC3486194, 0xDD16CBB3, 0xD68E6457, 0x101A4861, 0x1496A54F, 0x9162ADED, 0x9243F8AF, 0x839A0FC9]"
  by (simp add: round256_unfold Sigma0_def Sigma1_def Ch_def Maj_def rotr_def
      del: round256.simps)

lemma rounds_two_blocks_1_c:
  "foldl round256
     [0xC3486194, 0xDD16CBB3, 0xD68E6457, 0x101A4861, 0x1496A54F, 0x9162ADED, 0x9243F8AF, 0x839A0FC9]
     [(0xE49B69C1, 0xEB8012AD), (0xEFBE4786, 0xA7C3AE92), (0x0FC19DC6, 0x76E93BA2), (0x240CA1CC, 0xBA42E743),
      (0x2DE92C6F, 0x92A92204), (0x4A7484AA, 0xD847E75E), (0x5CB0A9DC, 0x9E160036), (0x76F988DA, 0xB280A7CB)] =
     [0x59FCE6B9, 0xAE2E2D4F, 0x1B2B66B8, 0xD70AC17D, 0xA2C7D51D, 0xF074FC95, 0xD560B028, 0x7CC6B262]"
  by (simp add: round256_unfold Sigma0_def Sigma1_def Ch_def Maj_def rotr_def
      del: round256.simps)

lemma rounds_two_blocks_1_d:
  "foldl round256
     [0x59FCE6B9, 0xAE2E2D4F, 0x1B2B66B8, 0xD70AC17D, 0xA2C7D51D, 0xF074FC95, 0xD560B028, 0x7CC6B262]
     [(0x983E5152, 0xDDEB1516), (0xA831C66D, 0xF36586F4), (0xB00327C8, 0x969CD048), (0xBF597FC7, 0xE959D99D),
      (0xC6E00BF3, 0x6ACCC0EC), (0xD5A79147, 0xF54CB098), (0x06CA6351, 0x2AF1B2DA), (0x14292967, 0xEE59C4C9)] =
     [0x5581AB07, 0xEB43F3ED, 0xDF7151A0, 0x74BCF468, 0xDF980085, 0x0635D880, 0x7629C961, 0x72ABAECD]"
  by (simp add: round256_unfold Sigma0_def Sigma1_def Ch_def Maj_def rotr_def
      del: round256.simps)

lemma rounds_two_blocks_1_e:
  "foldl round256
     [0x5581AB07, 0xEB43F3ED, 0xDF7151A0, 0x74BCF468, 0xDF980085, 0x0635D880, 0x7629C961, 0x72ABAECD]
     [(0x27B70A85, 0xA835E16A), (0x2E1B2138, 0x1DFF4429), (0x4D2C6DFC, 0xD6E15959), (0x53380D13, 0xC397CD6E),
      (0x650A7354, 0x6F1801CA), (0x766A0ABB, 0x21574205), (0x81C2C92E, 0x35FF7A84), (0x92722C85, 0x9743EE78)] =
     [0x7E4D30B8, 0x91AC9D5D, 0xA985B4BE, 0x2C55D3A6, 0x9F5B9B6D, 0x68D8D590, 0xF72BF353, 0xB067C1AF]"
  by (simp add: round256_unfold Sigma0_def Sigma1_def Ch_def Maj_def rotr_def
      del: round256.simps)

lemma rounds_two_blocks_1_f:
  "foldl round256
     [0x7E4D30B8, 0x91AC9D5D, 0xA985B4BE, 0x2C55D3A6, 0x9F5B9B6D, 0x68D8D590, 0xF72BF353, 0xB067C1AF]
     [(0xA2BFE8A1, 0xE44183E7), (0xA81A664B, 0x0D09F00D), (0xC24B8B70, 0x9C89AF54), (0xC76C51A3, 0x042D5BEF),
      (0xD192E819, 0x71F134D0), (0xD6990624, 0x0F94F463), (0xF40E3585, 0x7E49DC63), (0x106AA070, 0x6F65C997)] =
     [0x13D82741, 0x165BE9CD, 0x18F0D19D, 0xDE71E2F2, 0xA7802A4D, 0xA483F080, 0x6B88472C, 0xFF61C636]"
  by (simp add: round256_unfold Sigma0_def Sigma1_def Ch_def Maj_def rotr_def
      del: round256.simps)

lemma rounds_two_blocks_1_g:
  "foldl round256
     [0x13D82741, 0x165BE9CD, 0x18F0D19D, 0xDE71E2F2, 0xA7802A4D, 0xA483F080, 0x6B88472C, 0xFF61C636]
     [(0x19A4C116, 0x0B706583), (0x1E376C08, 0x179312CA), (0x2748774C, 0x503054E9), (0x34B0BCB5, 0xBA125C39),
      (0x391C0CB3, 0x7E9392C9), (0x4ED8AA4A, 0xD5CBAA1E), (0x5B9CCA4F, 0x78E0585D), (0x682E6FF3, 0xF6E7611C)] =
     [0x9E57C4A0, 0xF907B313, 0x1D6DE87A, 0xB8D55619, 0xEEC13548, 0x61A41711, 0x3443BED4, 0x1C806A61]"
  by (simp add: round256_unfold Sigma0_def Sigma1_def Ch_def Maj_def rotr_def
      del: round256.simps)

lemma rounds_two_blocks_1_h:
  "foldl round256
     [0x9E57C4A0, 0xF907B313, 0x1D6DE87A, 0xB8D55619, 0xEEC13548, 0x61A41711, 0x3443BED4, 0x1C806A61]
     [(0x748F82EE, 0x8AC830CE), (0x78A5636F, 0x8B47A303), (0x84C87814, 0xFD6E627F), (0x8CC70208, 0x8C6E2C6A),
      (0x90BEFFFA, 0x4001ADF1), (0xA4506CEB, 0x1A3DD097), (0xBEF9A3F7, 0xA9DF6F62), (0xC67178F2, 0x6AA60A39)] =
     [0x1BDC6F6F, 0x86126910, 0xF6F443F8, 0xBCFCE922, 0x25D2430A, 0x2FC08F85, 0xACC75916, 0x962D8621]"
  by (simp add: round256_unfold Sigma0_def Sigma1_def Ch_def Maj_def rotr_def
      del: round256.simps)

lemma rounds_two_blocks_1:
  "foldl round256
     [0x6A09E667, 0xBB67AE85, 0x3C6EF372, 0xA54FF53A, 0x510E527F, 0x9B05688C, 0x1F83D9AB, 0x5BE0CD19]
     (zip K256
        [0x61626364, 0x62636465, 0x63646566, 0x64656667, 0x65666768, 0x66676869, 0x6768696A, 0x68696A6B,
        0x696A6B6C, 0x6A6B6C6D, 0x6B6C6D6E, 0x6C6D6E6F, 0x6D6E6F70, 0x6E6F7071, 0x80000000, 0x00000000,
        0xEB8012AD, 0xA7C3AE92, 0x76E93BA2, 0xBA42E743, 0x92A92204, 0xD847E75E, 0x9E160036, 0xB280A7CB,
        0xDDEB1516, 0xF36586F4, 0x969CD048, 0xE959D99D, 0x6ACCC0EC, 0xF54CB098, 0x2AF1B2DA, 0xEE59C4C9,
        0xA835E16A, 0x1DFF4429, 0xD6E15959, 0xC397CD6E, 0x6F1801CA, 0x21574205, 0x35FF7A84, 0x9743EE78,
        0xE44183E7, 0x0D09F00D, 0x9C89AF54, 0x042D5BEF, 0x71F134D0, 0x0F94F463, 0x7E49DC63, 0x6F65C997,
        0x0B706583, 0x179312CA, 0x503054E9, 0xBA125C39, 0x7E9392C9, 0xD5CBAA1E, 0x78E0585D, 0xF6E7611C,
        0x8AC830CE, 0x8B47A303, 0xFD6E627F, 0x8C6E2C6A, 0x4001ADF1, 0x1A3DD097, 0xA9DF6F62, 0x6AA60A39]) =
     [0x1BDC6F6F, 0x86126910, 0xF6F443F8, 0xBCFCE922, 0x25D2430A, 0x2FC08F85, 0xACC75916, 0x962D8621]"
proof -
  have "zip K256
          ([0x61626364, 0x62636465, 0x63646566, 0x64656667, 0x65666768, 0x66676869, 0x6768696A, 0x68696A6B,
           0x696A6B6C, 0x6A6B6C6D, 0x6B6C6D6E, 0x6C6D6E6F, 0x6D6E6F70, 0x6E6F7071, 0x80000000, 0x00000000,
           0xEB8012AD, 0xA7C3AE92, 0x76E93BA2, 0xBA42E743, 0x92A92204, 0xD847E75E, 0x9E160036, 0xB280A7CB,
           0xDDEB1516, 0xF36586F4, 0x969CD048, 0xE959D99D, 0x6ACCC0EC, 0xF54CB098, 0x2AF1B2DA, 0xEE59C4C9,
           0xA835E16A, 0x1DFF4429, 0xD6E15959, 0xC397CD6E, 0x6F1801CA, 0x21574205, 0x35FF7A84, 0x9743EE78,
           0xE44183E7, 0x0D09F00D, 0x9C89AF54, 0x042D5BEF, 0x71F134D0, 0x0F94F463, 0x7E49DC63, 0x6F65C997,
           0x0B706583, 0x179312CA, 0x503054E9, 0xBA125C39, 0x7E9392C9, 0xD5CBAA1E, 0x78E0585D, 0xF6E7611C,
           0x8AC830CE, 0x8B47A303, 0xFD6E627F, 0x8C6E2C6A, 0x4001ADF1, 0x1A3DD097, 0xA9DF6F62, 0x6AA60A39] :: u32 list) =
       [(0x428A2F98, 0x61626364), (0x71374491, 0x62636465), (0xB5C0FBCF, 0x63646566), (0xE9B5DBA5, 0x64656667),
        (0x3956C25B, 0x65666768), (0x59F111F1, 0x66676869), (0x923F82A4, 0x6768696A), (0xAB1C5ED5, 0x68696A6B)] @
       [(0xD807AA98, 0x696A6B6C), (0x12835B01, 0x6A6B6C6D), (0x243185BE, 0x6B6C6D6E), (0x550C7DC3, 0x6C6D6E6F),
        (0x72BE5D74, 0x6D6E6F70), (0x80DEB1FE, 0x6E6F7071), (0x9BDC06A7, 0x80000000), (0xC19BF174, 0x00000000)] @
       [(0xE49B69C1, 0xEB8012AD), (0xEFBE4786, 0xA7C3AE92), (0x0FC19DC6, 0x76E93BA2), (0x240CA1CC, 0xBA42E743),
        (0x2DE92C6F, 0x92A92204), (0x4A7484AA, 0xD847E75E), (0x5CB0A9DC, 0x9E160036), (0x76F988DA, 0xB280A7CB)] @
       [(0x983E5152, 0xDDEB1516), (0xA831C66D, 0xF36586F4), (0xB00327C8, 0x969CD048), (0xBF597FC7, 0xE959D99D),
        (0xC6E00BF3, 0x6ACCC0EC), (0xD5A79147, 0xF54CB098), (0x06CA6351, 0x2AF1B2DA), (0x14292967, 0xEE59C4C9)] @
       [(0x27B70A85, 0xA835E16A), (0x2E1B2138, 0x1DFF4429), (0x4D2C6DFC, 0xD6E15959), (0x53380D13, 0xC397CD6E),
        (0x650A7354, 0x6F1801CA), (0x766A0ABB, 0x21574205), (0x81C2C92E, 0x35FF7A84), (0x92722C85, 0x9743EE78)] @
       [(0xA2BFE8A1, 0xE44183E7), (0xA81A664B, 0x0D09F00D), (0xC24B8B70, 0x9C89AF54), (0xC76C51A3, 0x042D5BEF),
        (0xD192E819, 0x71F134D0), (0xD6990624, 0x0F94F463), (0xF40E3585, 0x7E49DC63), (0x106AA070, 0x6F65C997)] @
       [(0x19A4C116, 0x0B706583), (0x1E376C08, 0x179312CA), (0x2748774C, 0x503054E9), (0x34B0BCB5, 0xBA125C39),
        (0x391C0CB3, 0x7E9392C9), (0x4ED8AA4A, 0xD5CBAA1E), (0x5B9CCA4F, 0x78E0585D), (0x682E6FF3, 0xF6E7611C)] @
       [(0x748F82EE, 0x8AC830CE), (0x78A5636F, 0x8B47A303), (0x84C87814, 0xFD6E627F), (0x8CC70208, 0x8C6E2C6A),
        (0x90BEFFFA, 0x4001ADF1), (0xA4506CEB, 0x1A3DD097), (0xBEF9A3F7, 0xA9DF6F62), (0xC67178F2, 0x6AA60A39)]"
    by (simp add: K256_def)
  then show ?thesis
    by (simp only: foldl_append rounds_two_blocks_1_a rounds_two_blocks_1_b rounds_two_blocks_1_c rounds_two_blocks_1_d rounds_two_blocks_1_e rounds_two_blocks_1_f rounds_two_blocks_1_g rounds_two_blocks_1_h)
qed

lemma compress_two_blocks_1:
  "compress
     [0x6A09E667, 0xBB67AE85, 0x3C6EF372, 0xA54FF53A, 0x510E527F, 0x9B05688C, 0x1F83D9AB, 0x5BE0CD19]
     [0x61, 0x62, 0x63, 0x64, 0x62, 0x63, 0x64, 0x65, 0x63, 0x64, 0x65, 0x66, 0x64, 0x65, 0x66, 0x67,
     0x65, 0x66, 0x67, 0x68, 0x66, 0x67, 0x68, 0x69, 0x67, 0x68, 0x69, 0x6A, 0x68, 0x69, 0x6A, 0x6B,
     0x69, 0x6A, 0x6B, 0x6C, 0x6A, 0x6B, 0x6C, 0x6D, 0x6B, 0x6C, 0x6D, 0x6E, 0x6C, 0x6D, 0x6E, 0x6F,
     0x6D, 0x6E, 0x6F, 0x70, 0x6E, 0x6F, 0x70, 0x71, 0x80, 0x00, 0x00, 0x00, 0x00, 0x00, 0x00, 0x00] =
     [0x85E655D6, 0x417A1795, 0x3363376A, 0x624CDE5C, 0x76E09589, 0xCAC5F811, 0xCC4B32C1, 0xF20E533A]"
  by (simp add: compress_def schedule_two_blocks_1 rounds_two_blocks_1 del: be_words.simps)
    (simp only: be_words_two_blocks_1 schedule_two_blocks_1 rounds_two_blocks_1, simp)

lemma be_words_two_blocks_2:
  "be_words
     [0x00, 0x00, 0x00, 0x00, 0x00, 0x00, 0x00, 0x00, 0x00, 0x00, 0x00, 0x00, 0x00, 0x00, 0x00, 0x00,
     0x00, 0x00, 0x00, 0x00, 0x00, 0x00, 0x00, 0x00, 0x00, 0x00, 0x00, 0x00, 0x00, 0x00, 0x00, 0x00,
     0x00, 0x00, 0x00, 0x00, 0x00, 0x00, 0x00, 0x00, 0x00, 0x00, 0x00, 0x00, 0x00, 0x00, 0x00, 0x00,
     0x00, 0x00, 0x00, 0x00, 0x00, 0x00, 0x00, 0x00, 0x00, 0x00, 0x00, 0x00, 0x00, 0x00, 0x01, 0xC0] =
     [0x00000000, 0x00000000, 0x00000000, 0x00000000, 0x00000000, 0x00000000, 0x00000000, 0x00000000,
     0x00000000, 0x00000000, 0x00000000, 0x00000000, 0x00000000, 0x00000000, 0x00000000, 0x000001C0]"
  by simp

lemma schedule_two_blocks_2_a:
  "schedule 16
     [0x00000000, 0x00000000, 0x00000000, 0x00000000, 0x00000000, 0x00000000, 0x00000000, 0x00000000,
     0x00000000, 0x00000000, 0x00000000, 0x00000000, 0x00000000, 0x00000000, 0x00000000, 0x000001C0] =
     [0x00000000, 0x00000000, 0x00000000, 0x00000000, 0x00000000, 0x00000000, 0x00000000, 0x00000000,
     0x00000000, 0x00000000, 0x00000000, 0x00000000, 0x00000000, 0x00000000, 0x00000000, 0x000001C0,
     0x00000000, 0x00D80000, 0x00000000, 0x00003677, 0x00000000, 0x1DF5600D, 0x000001C0, 0x1C00501C,
     0x01B00000, 0x220A8D94, 0x0000A365, 0x177017E7, 0x63D38035, 0x090AB713, 0x4C7539CA, 0x0F19A8C9]"
  by (simp add: schedule_numeral sigma0_def sigma1_def rotr_def)

lemma schedule_two_blocks_2_b:
  "schedule 16
     [0x00000000, 0x00000000, 0x00000000, 0x00000000, 0x00000000, 0x00000000, 0x00000000, 0x00000000,
     0x00000000, 0x00000000, 0x00000000, 0x00000000, 0x00000000, 0x00000000, 0x00000000, 0x000001C0,
     0x00000000, 0x00D80000, 0x00000000, 0x00003677, 0x00000000, 0x1DF5600D, 0x000001C0, 0x1C00501C,
     0x01B00000, 0x220A8D94, 0x0000A365, 0x177017E7, 0x63D38035, 0x090AB713, 0x4C7539CA, 0x0F19A8C9] =
     [0x00000000, 0x00000000, 0x00000000, 0x00000000, 0x00000000, 0x00000000, 0x00000000, 0x00000000,
     0x00000000, 0x00000000, 0x00000000, 0x00000000, 0x00000000, 0x00000000, 0x00000000, 0x000001C0,
     0x00000000, 0x00D80000, 0x00000000, 0x00003677, 0x00000000, 0x1DF5600D, 0x000001C0, 0x1C00501C,
     0x01B00000, 0x220A8D94, 0x0000A365, 0x177017E7, 0x63D38035, 0x090AB713, 0x4C7539CA, 0x0F19A8C9,
     0x5DF4B0C4, 0xE257036A, 0xC97BB6F1, 0xC5B46F4D, 0xF8253C4E, 0xA558D189, 0x78696285, 0xED07117F,
     0x107358F6, 0x390AE496, 0x565010A2, 0xC51D7D44, 0x9E74C972, 0x6614B561, 0x30FC129D, 0x9AC684A8]"
  by (simp add: schedule_numeral sigma0_def sigma1_def rotr_def)

lemma schedule_two_blocks_2_c:
  "schedule 16
     [0x00000000, 0x00000000, 0x00000000, 0x00000000, 0x00000000, 0x00000000, 0x00000000, 0x00000000,
     0x00000000, 0x00000000, 0x00000000, 0x00000000, 0x00000000, 0x00000000, 0x00000000, 0x000001C0,
     0x00000000, 0x00D80000, 0x00000000, 0x00003677, 0x00000000, 0x1DF5600D, 0x000001C0, 0x1C00501C,
     0x01B00000, 0x220A8D94, 0x0000A365, 0x177017E7, 0x63D38035, 0x090AB713, 0x4C7539CA, 0x0F19A8C9,
     0x5DF4B0C4, 0xE257036A, 0xC97BB6F1, 0xC5B46F4D, 0xF8253C4E, 0xA558D189, 0x78696285, 0xED07117F,
     0x107358F6, 0x390AE496, 0x565010A2, 0xC51D7D44, 0x9E74C972, 0x6614B561, 0x30FC129D, 0x9AC684A8] =
     [0x00000000, 0x00000000, 0x00000000, 0x00000000, 0x00000000, 0x00000000, 0x00000000, 0x00000000,
     0x00000000, 0x00000000, 0x00000000, 0x00000000, 0x00000000, 0x00000000, 0x00000000, 0x000001C0,
     0x00000000, 0x00D80000, 0x00000000, 0x00003677, 0x00000000, 0x1DF5600D, 0x000001C0, 0x1C00501C,
     0x01B00000, 0x220A8D94, 0x0000A365, 0x177017E7, 0x63D38035, 0x090AB713, 0x4C7539CA, 0x0F19A8C9,
     0x5DF4B0C4, 0xE257036A, 0xC97BB6F1, 0xC5B46F4D, 0xF8253C4E, 0xA558D189, 0x78696285, 0xED07117F,
     0x107358F6, 0x390AE496, 0x565010A2, 0xC51D7D44, 0x9E74C972, 0x6614B561, 0x30FC129D, 0x9AC684A8,
     0x2B658DBD, 0xE290F793, 0x9EEBB24C, 0x9713B5DE, 0x41061AB7, 0xE022E23B, 0x0772079E, 0x7DE22D9C,
     0xC8B83778, 0x75A79849, 0xD93DBDDB, 0x0A036C9D, 0xCB4F6AC6, 0x823F97E2, 0xEA2F2A7A, 0xB9018B52]"
  by (simp add: schedule_numeral sigma0_def sigma1_def rotr_def)

lemma schedule_two_blocks_2:
  "schedule 48
     [0x00000000, 0x00000000, 0x00000000, 0x00000000, 0x00000000, 0x00000000, 0x00000000, 0x00000000,
     0x00000000, 0x00000000, 0x00000000, 0x00000000, 0x00000000, 0x00000000, 0x00000000, 0x000001C0] =
     [0x00000000, 0x00000000, 0x00000000, 0x00000000, 0x00000000, 0x00000000, 0x00000000, 0x00000000,
     0x00000000, 0x00000000, 0x00000000, 0x00000000, 0x00000000, 0x00000000, 0x00000000, 0x000001C0,
     0x00000000, 0x00D80000, 0x00000000, 0x00003677, 0x00000000, 0x1DF5600D, 0x000001C0, 0x1C00501C,
     0x01B00000, 0x220A8D94, 0x0000A365, 0x177017E7, 0x63D38035, 0x090AB713, 0x4C7539CA, 0x0F19A8C9,
     0x5DF4B0C4, 0xE257036A, 0xC97BB6F1, 0xC5B46F4D, 0xF8253C4E, 0xA558D189, 0x78696285, 0xED07117F,
     0x107358F6, 0x390AE496, 0x565010A2, 0xC51D7D44, 0x9E74C972, 0x6614B561, 0x30FC129D, 0x9AC684A8,
     0x2B658DBD, 0xE290F793, 0x9EEBB24C, 0x9713B5DE, 0x41061AB7, 0xE022E23B, 0x0772079E, 0x7DE22D9C,
     0xC8B83778, 0x75A79849, 0xD93DBDDB, 0x0A036C9D, 0xCB4F6AC6, 0x823F97E2, 0xEA2F2A7A, 0xB9018B52]"
proof -
  have "schedule 48
          [0x00000000, 0x00000000, 0x00000000, 0x00000000, 0x00000000, 0x00000000, 0x00000000, 0x00000000,
          0x00000000, 0x00000000, 0x00000000, 0x00000000, 0x00000000, 0x00000000, 0x00000000, 0x000001C0]
        = schedule (16 + 16 + 16)
          [0x00000000, 0x00000000, 0x00000000, 0x00000000, 0x00000000, 0x00000000, 0x00000000, 0x00000000,
          0x00000000, 0x00000000, 0x00000000, 0x00000000, 0x00000000, 0x00000000, 0x00000000, 0x000001C0]"
    by simp
  then show ?thesis
    by (simp only: schedule_add schedule_two_blocks_2_a schedule_two_blocks_2_b schedule_two_blocks_2_c)
qed

lemma rounds_two_blocks_2_a:
  "foldl round256
     [0x85E655D6, 0x417A1795, 0x3363376A, 0x624CDE5C, 0x76E09589, 0xCAC5F811, 0xCC4B32C1, 0xF20E533A]
     [(0x428A2F98, 0x00000000), (0x71374491, 0x00000000), (0xB5C0FBCF, 0x00000000), (0xE9B5DBA5, 0x00000000),
      (0x3956C25B, 0x00000000), (0x59F111F1, 0x00000000), (0x923F82A4, 0x00000000), (0xAB1C5ED5, 0x00000000)] =
     [0xBF9A93A0, 0x89BBA3F1, 0x3EEB6C06, 0x185A5D79, 0x059ABDD1, 0x0A34DF03, 0xFE20CDA6, 0x8DFF3001]"
  by (simp add: round256_unfold Sigma0_def Sigma1_def Ch_def Maj_def rotr_def
      del: round256.simps)

lemma rounds_two_blocks_2_b:
  "foldl round256
     [0xBF9A93A0, 0x89BBA3F1, 0x3EEB6C06, 0x185A5D79, 0x059ABDD1, 0x0A34DF03, 0xFE20CDA6, 0x8DFF3001]
     [(0xD807AA98, 0x00000000), (0x12835B01, 0x00000000), (0x243185BE, 0x00000000), (0x550C7DC3, 0x00000000),
      (0x72BE5D74, 0x00000000), (0x80DEB1FE, 0x00000000), (0x9BDC06A7, 0x00000000), (0xC19BF174, 0x000001C0)] =
     [0x16A8CC79, 0x0CEA5CBC, 0xD74080FA, 0x35EE996D, 0x0FCB1F6F, 0x60356548, 0x68AA893F, 0x5C24E2A2]"
  by (simp add: round256_unfold Sigma0_def Sigma1_def Ch_def Maj_def rotr_def
      del: round256.simps)

lemma rounds_two_blocks_2_c:
  "foldl round256
     [0x16A8CC79, 0x0CEA5CBC, 0xD74080FA, 0x35EE996D, 0x0FCB1F6F, 0x60356548, 0x68AA893F, 0x5C24E2A2]
     [(0xE49B69C1, 0x00000000), (0xEFBE4786, 0x00D80000), (0x0FC19DC6, 0x00000000), (0x240CA1CC, 0x00003677),
      (0x2DE92C6F, 0x00000000), (0x4A7484AA, 0x1DF5600D), (0x5CB0A9DC, 0x000001C0), (0x76F988DA, 0x1C00501C)] =
     [0xA4195B91, 0xF13AE55B, 0xD44DC81A, 0x20AAD899, 0xEDDBD6ED, 0x966AA287, 0x5BACE62D, 0xCC4769F2]"
  by (simp add: round256_unfold Sigma0_def Sigma1_def Ch_def Maj_def rotr_def
      del: round256.simps)

lemma rounds_two_blocks_2_d:
  "foldl round256
     [0xA4195B91, 0xF13AE55B, 0xD44DC81A, 0x20AAD899, 0xEDDBD6ED, 0x966AA287, 0x5BACE62D, 0xCC4769F2]
     [(0x983E5152, 0x01B00000), (0xA831C66D, 0x220A8D94), (0xB00327C8, 0x0000A365), (0xBF597FC7, 0x177017E7),
      (0xC6E00BF3, 0x63D38035), (0xD5A79147, 0x090AB713), (0x06CA6351, 0x4C7539CA), (0x14292967, 0x0F19A8C9)] =
     [0xB0EAB1C5, 0x02EF3A5F, 0x1CFA5EB0, 0xD958B529, 0xF6D93952, 0x5DA10665, 0x6C49DB9F, 0xC2FA99B1]"
  by (simp add: round256_unfold Sigma0_def Sigma1_def Ch_def Maj_def rotr_def
      del: round256.simps)

lemma rounds_two_blocks_2_e:
  "foldl round256
     [0xB0EAB1C5, 0x02EF3A5F, 0x1CFA5EB0, 0xD958B529, 0xF6D93952, 0x5DA10665, 0x6C49DB9F, 0xC2FA99B1]
     [(0x27B70A85, 0x5DF4B0C4), (0x2E1B2138, 0xE257036A), (0x4D2C6DFC, 0xC97BB6F1), (0x53380D13, 0xC5B46F4D),
      (0x650A7354, 0xF8253C4E), (0x766A0ABB, 0xA558D189), (0x81C2C92E, 0x78696285), (0x92722C85, 0xED07117F)] =
     [0x221B8A5A, 0xADCA7A96, 0xD949682B, 0x2F11C939, 0x0B82C5EB, 0xC6CCE4FF, 0x32D99008, 0xFED4CE1D]"
  by (simp add: round256_unfold Sigma0_def Sigma1_def Ch_def Maj_def rotr_def
      del: round256.simps)

lemma rounds_two_blocks_2_f:
  "foldl round256
     [0x221B8A5A, 0xADCA7A96, 0xD949682B, 0x2F11C939, 0x0B82C5EB, 0xC6CCE4FF, 0x32D99008, 0xFED4CE1D]
     [(0xA2BFE8A1, 0x107358F6), (0xA81A664B, 0x390AE496), (0xC24B8B70, 0x565010A2), (0xC76C51A3, 0xC51D7D44),
      (0xD192E819, 0x9E74C972), (0xD6990624, 0x6614B561), (0xF40E3585, 0x30FC129D), (0x106AA070, 0x9AC684A8)] =
     [0xD7354D5B, 0x0B3303A7, 0x104A7DB4, 0x0F154E11, 0xAAD55B6B, 0xBBE1C39A, 0x5348E8F6, 0x6F9517CB]"
  by (simp add: round256_unfold Sigma0_def Sigma1_def Ch_def Maj_def rotr_def
      del: round256.simps)

lemma rounds_two_blocks_2_g:
  "foldl round256
     [0xD7354D5B, 0x0B3303A7, 0x104A7DB4, 0x0F154E11, 0xAAD55B6B, 0xBBE1C39A, 0x5348E8F6, 0x6F9517CB]
     [(0x19A4C116, 0x2B658DBD), (0x1E376C08, 0xE290F793), (0x2748774C, 0x9EEBB24C), (0x34B0BCB5, 0x9713B5DE),
      (0x391C0CB3, 0x41061AB7), (0x4ED8AA4A, 0xE022E23B), (0x5B9CCA4F, 0x0772079E), (0x682E6FF3, 0x7DE22D9C)] =
     [0x92952710, 0xD9F0C115, 0xEC02560A, 0x4ECA6FA0, 0x226806D6, 0x624150C4, 0x7151DF8E, 0x989ED071]"
  by (simp add: round256_unfold Sigma0_def Sigma1_def Ch_def Maj_def rotr_def
      del: round256.simps)

lemma rounds_two_blocks_2_h:
  "foldl round256
     [0x92952710, 0xD9F0C115, 0xEC02560A, 0x4ECA6FA0, 0x226806D6, 0x624150C4, 0x7151DF8E, 0x989ED071]
     [(0x748F82EE, 0xC8B83778), (0x78A5636F, 0x75A79849), (0x84C87814, 0xD93DBDDB), (0x8CC70208, 0x0A036C9D),
      (0x90BEFFFA, 0xCB4F6AC6), (0xA4506CEB, 0x823F97E2), (0xBEF9A3F7, 0xEA2F2A7A), (0xC67178F2, 0xB9018B52)] =
     [0x9EA7148B, 0x908C2123, 0xB25CEF29, 0xA9F181DD, 0x2C5C4ED0, 0x9A392956, 0x2AA1BB13, 0x27CCB387]"
  by (simp add: round256_unfold Sigma0_def Sigma1_def Ch_def Maj_def rotr_def
      del: round256.simps)

lemma rounds_two_blocks_2:
  "foldl round256
     [0x85E655D6, 0x417A1795, 0x3363376A, 0x624CDE5C, 0x76E09589, 0xCAC5F811, 0xCC4B32C1, 0xF20E533A]
     (zip K256
        [0x00000000, 0x00000000, 0x00000000, 0x00000000, 0x00000000, 0x00000000, 0x00000000, 0x00000000,
        0x00000000, 0x00000000, 0x00000000, 0x00000000, 0x00000000, 0x00000000, 0x00000000, 0x000001C0,
        0x00000000, 0x00D80000, 0x00000000, 0x00003677, 0x00000000, 0x1DF5600D, 0x000001C0, 0x1C00501C,
        0x01B00000, 0x220A8D94, 0x0000A365, 0x177017E7, 0x63D38035, 0x090AB713, 0x4C7539CA, 0x0F19A8C9,
        0x5DF4B0C4, 0xE257036A, 0xC97BB6F1, 0xC5B46F4D, 0xF8253C4E, 0xA558D189, 0x78696285, 0xED07117F,
        0x107358F6, 0x390AE496, 0x565010A2, 0xC51D7D44, 0x9E74C972, 0x6614B561, 0x30FC129D, 0x9AC684A8,
        0x2B658DBD, 0xE290F793, 0x9EEBB24C, 0x9713B5DE, 0x41061AB7, 0xE022E23B, 0x0772079E, 0x7DE22D9C,
        0xC8B83778, 0x75A79849, 0xD93DBDDB, 0x0A036C9D, 0xCB4F6AC6, 0x823F97E2, 0xEA2F2A7A, 0xB9018B52]) =
     [0x9EA7148B, 0x908C2123, 0xB25CEF29, 0xA9F181DD, 0x2C5C4ED0, 0x9A392956, 0x2AA1BB13, 0x27CCB387]"
proof -
  have "zip K256
          ([0x00000000, 0x00000000, 0x00000000, 0x00000000, 0x00000000, 0x00000000, 0x00000000, 0x00000000,
           0x00000000, 0x00000000, 0x00000000, 0x00000000, 0x00000000, 0x00000000, 0x00000000, 0x000001C0,
           0x00000000, 0x00D80000, 0x00000000, 0x00003677, 0x00000000, 0x1DF5600D, 0x000001C0, 0x1C00501C,
           0x01B00000, 0x220A8D94, 0x0000A365, 0x177017E7, 0x63D38035, 0x090AB713, 0x4C7539CA, 0x0F19A8C9,
           0x5DF4B0C4, 0xE257036A, 0xC97BB6F1, 0xC5B46F4D, 0xF8253C4E, 0xA558D189, 0x78696285, 0xED07117F,
           0x107358F6, 0x390AE496, 0x565010A2, 0xC51D7D44, 0x9E74C972, 0x6614B561, 0x30FC129D, 0x9AC684A8,
           0x2B658DBD, 0xE290F793, 0x9EEBB24C, 0x9713B5DE, 0x41061AB7, 0xE022E23B, 0x0772079E, 0x7DE22D9C,
           0xC8B83778, 0x75A79849, 0xD93DBDDB, 0x0A036C9D, 0xCB4F6AC6, 0x823F97E2, 0xEA2F2A7A, 0xB9018B52] :: u32 list) =
       [(0x428A2F98, 0x00000000), (0x71374491, 0x00000000), (0xB5C0FBCF, 0x00000000), (0xE9B5DBA5, 0x00000000),
        (0x3956C25B, 0x00000000), (0x59F111F1, 0x00000000), (0x923F82A4, 0x00000000), (0xAB1C5ED5, 0x00000000)] @
       [(0xD807AA98, 0x00000000), (0x12835B01, 0x00000000), (0x243185BE, 0x00000000), (0x550C7DC3, 0x00000000),
        (0x72BE5D74, 0x00000000), (0x80DEB1FE, 0x00000000), (0x9BDC06A7, 0x00000000), (0xC19BF174, 0x000001C0)] @
       [(0xE49B69C1, 0x00000000), (0xEFBE4786, 0x00D80000), (0x0FC19DC6, 0x00000000), (0x240CA1CC, 0x00003677),
        (0x2DE92C6F, 0x00000000), (0x4A7484AA, 0x1DF5600D), (0x5CB0A9DC, 0x000001C0), (0x76F988DA, 0x1C00501C)] @
       [(0x983E5152, 0x01B00000), (0xA831C66D, 0x220A8D94), (0xB00327C8, 0x0000A365), (0xBF597FC7, 0x177017E7),
        (0xC6E00BF3, 0x63D38035), (0xD5A79147, 0x090AB713), (0x06CA6351, 0x4C7539CA), (0x14292967, 0x0F19A8C9)] @
       [(0x27B70A85, 0x5DF4B0C4), (0x2E1B2138, 0xE257036A), (0x4D2C6DFC, 0xC97BB6F1), (0x53380D13, 0xC5B46F4D),
        (0x650A7354, 0xF8253C4E), (0x766A0ABB, 0xA558D189), (0x81C2C92E, 0x78696285), (0x92722C85, 0xED07117F)] @
       [(0xA2BFE8A1, 0x107358F6), (0xA81A664B, 0x390AE496), (0xC24B8B70, 0x565010A2), (0xC76C51A3, 0xC51D7D44),
        (0xD192E819, 0x9E74C972), (0xD6990624, 0x6614B561), (0xF40E3585, 0x30FC129D), (0x106AA070, 0x9AC684A8)] @
       [(0x19A4C116, 0x2B658DBD), (0x1E376C08, 0xE290F793), (0x2748774C, 0x9EEBB24C), (0x34B0BCB5, 0x9713B5DE),
        (0x391C0CB3, 0x41061AB7), (0x4ED8AA4A, 0xE022E23B), (0x5B9CCA4F, 0x0772079E), (0x682E6FF3, 0x7DE22D9C)] @
       [(0x748F82EE, 0xC8B83778), (0x78A5636F, 0x75A79849), (0x84C87814, 0xD93DBDDB), (0x8CC70208, 0x0A036C9D),
        (0x90BEFFFA, 0xCB4F6AC6), (0xA4506CEB, 0x823F97E2), (0xBEF9A3F7, 0xEA2F2A7A), (0xC67178F2, 0xB9018B52)]"
    by (simp add: K256_def)
  then show ?thesis
    by (simp only: foldl_append rounds_two_blocks_2_a rounds_two_blocks_2_b rounds_two_blocks_2_c rounds_two_blocks_2_d rounds_two_blocks_2_e rounds_two_blocks_2_f rounds_two_blocks_2_g rounds_two_blocks_2_h)
qed

lemma compress_two_blocks_2:
  "compress
     [0x85E655D6, 0x417A1795, 0x3363376A, 0x624CDE5C, 0x76E09589, 0xCAC5F811, 0xCC4B32C1, 0xF20E533A]
     [0x00, 0x00, 0x00, 0x00, 0x00, 0x00, 0x00, 0x00, 0x00, 0x00, 0x00, 0x00, 0x00, 0x00, 0x00, 0x00,
     0x00, 0x00, 0x00, 0x00, 0x00, 0x00, 0x00, 0x00, 0x00, 0x00, 0x00, 0x00, 0x00, 0x00, 0x00, 0x00,
     0x00, 0x00, 0x00, 0x00, 0x00, 0x00, 0x00, 0x00, 0x00, 0x00, 0x00, 0x00, 0x00, 0x00, 0x00, 0x00,
     0x00, 0x00, 0x00, 0x00, 0x00, 0x00, 0x00, 0x00, 0x00, 0x00, 0x00, 0x00, 0x00, 0x00, 0x01, 0xC0] =
     [0x248D6A61, 0xD20638B8, 0xE5C02693, 0x0C3E6039, 0xA33CE459, 0x64FF2167, 0xF6ECEDD4, 0x19DB06C1]"
  by (simp add: compress_def schedule_two_blocks_2 rounds_two_blocks_2 del: be_words.simps)
    (simp only: be_words_two_blocks_2 schedule_two_blocks_2 rounds_two_blocks_2, simp)

lemma sha256_two_blocks:
  "sha256 (map of_char ''abcdbcdecdefdefgefghfghighijhijkijkljklmklmnlmnomnopnopq'') =
     [0x24, 0x8D, 0x6A, 0x61, 0xD2, 0x06, 0x38, 0xB8, 0xE5, 0xC0, 0x26, 0x93, 0x0C, 0x3E, 0x60, 0x39,
     0xA3, 0x3C, 0xE4, 0x59, 0x64, 0xFF, 0x21, 0x67, 0xF6, 0xEC, 0xED, 0xD4, 0x19, 0xDB, 0x06, 0xC1]"
proof -
  have "foldl compress H256 (blocks (pad (map of_char ''abcdbcdecdefdefgefghfghighijhijkijkljklmklmnlmnomnopnopq''))) =
          [0x248D6A61, 0xD20638B8, 0xE5C02693, 0x0C3E6039, 0xA33CE459, 0x64FF2167, 0xF6ECEDD4, 0x19DB06C1]"
    by (simp only: pad_two_blocks blocks_two_blocks foldl.simps H256_def compress_two_blocks_1 compress_two_blocks_2)
  then show ?thesis
    by (simp only: sha256_def) (simp add: word_bytes_def)
qed

lemma checksum_two_blocks:
  "checksum (map of_char ''abcdbcdecdefdefgefghfghighijhijkijkljklmklmnlmnomnopnopq'') = ''248d6a61d20638b8e5c026930c3e6039a33ce45964ff2167f6ecedd419db06c1''"
  by (simp only: checksum_def sha256_two_blocks) (simp add: hexdigest_def hexdigit_def)

text \<open>
  Claim C7. For every byte content the checksum that \<^verbatim>\<open>compute_checksums\<close> records
  is the hexadecimal rendering of the SHA-256 hash of the whole content: 64 characters,
  each a digit or a lowercase letter from a to f. The empty content has the digest
  e3b0c44298fc1c149afbf4c8996fb92427ae41e4649b934ca495991b7852b855, and the one-block and
  the two-block message of FIPS 180-4 have the digests the standard gives for them.
\<close>

theorem checksum_is_sha256_hex:
  "compute_checksums [\<lparr>name = n, content = Some data\<rparr>]
     = Inr (Checksums [(Str n, Str (checksum data))])
   \<and> checksum data = hexdigest (sha256 data)
   \<and> length (checksum data) = 64
   \<and> set (checksum data) \<subseteq> set ''0123456789abcdef''
   \<and> checksum [] = ''e3b0c44298fc1c149afbf4c8996fb92427ae41e4649b934ca495991b7852b855''
   \<and> checksum (map of_char ''abc'')
       = ''ba7816bf8f01cfea414140de5dae2223b00361a396177a9cb410ff61f20015ad''
   \<and> checksum (map of_char ''abcdbcdecdefdefgefghfghighijhijkijkljklmklmnlmnomnopnopq'')
       = ''248d6a61d20638b8e5c026930c3e6039a33ce45964ff2167f6ecedd419db06c1''"
proof -
  have "compute_checksums [\<lparr>name = n, content = Some data\<rparr>]
          = Inr (Checksums [(Str n, Str (checksum data))])"
    by (simp add: compute_checksums_def read_def DataFrame_def)
  moreover have "checksum data = hexdigest (sha256 data)"
    by (rule checksum_def)
  moreover have "length (checksum data) = 64"
    by (simp add: checksum_def length_hexdigest length_sha256)
  moreover have "set (checksum data) \<subseteq> set ''0123456789abcdef''"
    unfolding checksum_def by (rule set_hexdigest)
  ultimately show ?thesis
    using checksum_empty checksum_abc checksum_two_blocks by (simp only: simp_thms)
qed

section \<open>The round trip of a baseline through its CSV file\<close>

text \<open>
  Claim C9 at a baseline of two files, one of them named \<^verbatim>\<open>NA\<close>. The CSV text holds
  the name as the field \<^verbatim>\<open>NA\<close>, which \<^verbatim>\<open>pd.read_csv\<close> reads back as NaN: the table
  read is not the table written. Compared with the same two files, the baseline read
  back reports the file \<^verbatim>\<open>NA\<close> as new and a row without a name as missing.
\<close>

theorem to_csv_read_csv_loses_name:
  "to_csv [(Str ''NA'', Str ''e3b0c44298fc1c149afbf4c8996fb92427ae41e4649b934ca495991b7852b855''),
           (Str ''a.txt'', Str ''ba7816bf8f01cfea414140de5dae2223b00361a396177a9cb410ff61f20015ad'')]
     = ''filename,sha256'' @ [CHR 0x0A]
       @ ''NA,e3b0c44298fc1c149afbf4c8996fb92427ae41e4649b934ca495991b7852b855'' @ [CHR 0x0A]
       @ ''a.txt,ba7816bf8f01cfea414140de5dae2223b00361a396177a9cb410ff61f20015ad'' @ [CHR 0x0A]
   \<and> map read_csv_cell [''NA'', ''e3b0c44298fc1c149afbf4c8996fb92427ae41e4649b934ca495991b7852b855'']
       = [NaN, Str ''e3b0c44298fc1c149afbf4c8996fb92427ae41e4649b934ca495991b7852b855'']
   \<and> map read_csv_cell [''a.txt'', ''ba7816bf8f01cfea414140de5dae2223b00361a396177a9cb410ff61f20015ad'']
       = [Str ''a.txt'', Str ''ba7816bf8f01cfea414140de5dae2223b00361a396177a9cb410ff61f20015ad'']
   \<and> compare_checksums
         (Checksums [(NaN, Str ''e3b0c44298fc1c149afbf4c8996fb92427ae41e4649b934ca495991b7852b855''),
                     (Str ''a.txt'', Str ''ba7816bf8f01cfea414140de5dae2223b00361a396177a9cb410ff61f20015ad'')])
         (Checksums [(Str ''NA'', Str ''e3b0c44298fc1c149afbf4c8996fb92427ae41e4649b934ca495991b7852b855''),
                     (Str ''a.txt'', Str ''ba7816bf8f01cfea414140de5dae2223b00361a396177a9cb410ff61f20015ad'')])
       = Inr [\<lparr>filename = Str ''NA'', sha256_baseline = NaN,
                sha256_new = Str ''e3b0c44298fc1c149afbf4c8996fb92427ae41e4649b934ca495991b7852b855'', status = ''new''\<rparr>,
              \<lparr>filename = Str ''a.txt'', sha256_baseline = Str ''ba7816bf8f01cfea414140de5dae2223b00361a396177a9cb410ff61f20015ad'',
                sha256_new = Str ''ba7816bf8f01cfea414140de5dae2223b00361a396177a9cb410ff61f20015ad'', status = ''unchanged''\<rparr>,
              \<lparr>filename = NaN, sha256_baseline = Str ''e3b0c44298fc1c149afbf4c8996fb92427ae41e4649b934ca495991b7852b855'',
                sha256_new = NaN, status = ''missing''\<rparr>]"
  by (simp add: to_csv_def csv_line_def csv_field_def read_csv_cell_def na_values_def
      merge_outer_def merge_keys_def cell_key_def join_key_def values_of_def classify_def
      row_status_def)

end
